theory Spec2Isabelle
  imports Main "HOL-Library.Word" "HOL-Library.Monad_Syntax" "HOL-Library.Multiset"
begin

section \<open>Relation sets, filter infos and memo entries\<close>

text \<open>
  A RelationSet is an interned, strictly increasing vector of relation ids; two sets with the
  same content are the same object, so a value of type \<open>nat list\<close> (kept sorted and
  distinct) stands for the pointer.  An \<open>unordered_set<size_t>\<close> of bindings is kept as a
  list of its elements.
\<close>

type_synonym RelationSet = "nat list"

type_synonym size_t = "64 word"

record FilterInfo =
  filter_index :: nat
  set_f :: RelationSet
  left_set :: RelationSet
  right_set :: RelationSet

record NeighborInfo =
  neighbor :: RelationSet
  filters_n :: "FilterInfo list"

text \<open>
  \<open>JoinNode(set, cardinality)\<close> builds a leaf (no info, no children, cost 0);
  \<open>JoinNode(set, info, left, right, cardinality, cost)\<close> builds an inner node.
\<close>

datatype JoinNode =
  JoinNode (set_j: RelationSet) (info: "NeighborInfo option")
           (left: "JoinNode option") (right: "JoinNode option")
           (cardinality: size_t) (cost: size_t)

definition JoinLeaf :: "RelationSet \<Rightarrow> size_t \<Rightarrow> JoinNode" where
  "JoinLeaf s c = JoinNode s None None None c 0"

section \<open>CreateJoinTree\<close>

text \<open>
  The source calls itself once with the arguments exchanged when the left cardinality is
  the smaller one; the second call never exchanges again.
\<close>

function CreateJoinTree :: "RelationSet \<Rightarrow> NeighborInfo \<Rightarrow> JoinNode \<Rightarrow> JoinNode \<Rightarrow> JoinNode" where
  "CreateJoinTree s i l r =
     (if cardinality l < cardinality r then CreateJoinTree s i r l
      else
        let expected_cardinality =
              (if length (filters_n i) = 0 then cardinality l * cardinality r
               else max (cardinality l) (cardinality r));
            cost' = expected_cardinality + cost l + cost r
        in JoinNode s (Some i) (Some l) (Some r) expected_cardinality cost')"
  by pat_completeness auto
termination
  by (relation "measure (\<lambda>(s, i, l, r). if cardinality l < cardinality r then 1 else 0)") auto

declare CreateJoinTree.simps [simp del]

section \<open>The memo and the pair budget\<close>

text \<open>
  The part of the optimizer that the enumeration changes: the memo \<open>plans\<close> and the counter
  \<open>pairs\<close>.  The header that declares \<open>pairs\<close> is not part of the sources at hand; it is a
  counter that only grows, a natural number here.  \<open>None\<close> as a result stands for abnormal
  termination (a failed assertion, a null dereference, an exception).
\<close>

record memo =
  plans :: "RelationSet \<rightharpoonup> JoinNode"
  pairs :: nat

text \<open>
  Modelled from the spec: \<open>SetManager::Union\<close>, \<open>Difference\<close>, \<open>GetRelation\<close> and
  \<open>RelationSet::IsSubset\<close> are not among the sources; the sets are sorted, identified by
  content.
\<close>

definition Union_rs :: "RelationSet \<Rightarrow> RelationSet \<Rightarrow> RelationSet" where
  "Union_rs a b = sort (remdups (a @ b))"

definition Difference_rs :: "RelationSet \<Rightarrow> RelationSet \<Rightarrow> RelationSet" where
  "Difference_rs a b = filter (\<lambda>x. x \<notin> set b) a"

definition GetRelation :: "nat \<Rightarrow> RelationSet" where
  "GetRelation i = [i]"

definition GetRelationSet :: "nat list \<Rightarrow> RelationSet" where
  "GetRelationSet bindings = sort (remdups bindings)"

definition IsSubset :: "RelationSet \<Rightarrow> RelationSet \<Rightarrow> bool" where
  "IsSubset super sub = list_all (\<lambda>x. x \<in> set super) sub"

definition EmitPair :: "RelationSet \<Rightarrow> RelationSet \<Rightarrow> NeighborInfo \<Rightarrow> memo \<Rightarrow> (JoinNode \<times> memo) option" where
  "EmitPair l r i m =
     (case plans m l of None \<Rightarrow> None | Some left_plan \<Rightarrow>
       (case plans m r of None \<Rightarrow> None | Some right_plan \<Rightarrow>
         (let new_set = Union_rs l r;
              new_plan = CreateJoinTree new_set i left_plan right_plan
          in (case plans m new_set of
                None \<Rightarrow> Some (new_plan, m\<lparr>plans := (plans m)(new_set \<mapsto> new_plan)\<rparr>)
              | Some entry \<Rightarrow>
                  if cost new_plan < cost entry
                  then Some (new_plan, m\<lparr>plans := (plans m)(new_set \<mapsto> new_plan)\<rparr>)
                  else Some (entry, m)))))"

definition TryEmitPair :: "RelationSet \<Rightarrow> RelationSet \<Rightarrow> NeighborInfo \<Rightarrow> memo \<Rightarrow> (bool \<times> memo) option" where
  "TryEmitPair l r i m =
     (let m1 = m\<lparr>pairs := pairs m + 1\<rparr>
      in if pairs m1 \<ge> 10000 then Some (False, m1)
         else case EmitPair l r i m1 of None \<Rightarrow> None | Some (n, m2) \<Rightarrow> Some (True, m2))"

section \<open>The query graph\<close>

text \<open>
  Modelled from the spec: the QueryGraph class (\<open>CreateEdge\<close>, \<open>GetNeighbors\<close>,
  \<open>GetConnection\<close>) is not among the sources.  Edges are keyed by their \<open>from\<close> set; each key
  holds the NeighborInfos of its targets, in the order of their creation.  An edge towards
  or from an empty set is not added.  A second predicate between the same two sets joins
  the filters of the existing NeighborInfo.
\<close>

type_synonym QueryGraph = "(RelationSet \<times> NeighborInfo list) list"

definition add_filter :: "FilterInfo option \<Rightarrow> FilterInfo list \<Rightarrow> FilterInfo list" where
  "add_filter fi fs = (case fi of None \<Rightarrow> fs | Some f \<Rightarrow> fs @ [f])"

fun add_neighbor :: "RelationSet \<Rightarrow> FilterInfo option \<Rightarrow> NeighborInfo list \<Rightarrow> NeighborInfo list" where
  "add_neighbor t fi [] = [\<lparr>neighbor = t, filters_n = add_filter fi []\<rparr>]"
| "add_neighbor t fi (n # ns) =
     (if neighbor n = t then n\<lparr>filters_n := add_filter fi (filters_n n)\<rparr> # ns
      else n # add_neighbor t fi ns)"

fun add_edge :: "RelationSet \<Rightarrow> RelationSet \<Rightarrow> FilterInfo option \<Rightarrow> QueryGraph \<Rightarrow> QueryGraph" where
  "add_edge f t fi [] = [(f, add_neighbor t fi [])]"
| "add_edge f t fi ((k, ns) # g) =
     (if k = f then (k, add_neighbor t fi ns) # g else (k, ns) # add_edge f t fi g)"

definition CreateEdge :: "QueryGraph \<Rightarrow> RelationSet \<Rightarrow> RelationSet \<Rightarrow> FilterInfo option \<Rightarrow> QueryGraph" where
  "CreateEdge g f t fi = (if f = [] \<or> t = [] then g else add_edge f t fi g)"

definition disjoint_rs :: "nat list \<Rightarrow> nat list \<Rightarrow> bool" where
  "disjoint_rs a b = list_all (\<lambda>x. x \<notin> set b) a"

text \<open>All NeighborInfos of the edges that leave a subset of \<open>s\<close>.\<close>

definition edges_from :: "QueryGraph \<Rightarrow> RelationSet \<Rightarrow> NeighborInfo list" where
  "edges_from g s = concat (map snd (filter (\<lambda>e. IsSubset s (fst e)) g))"

text \<open>
  The least id (\<open>relations[0]\<close>) of every target that avoids the exclusion set; the result
  of the source is the content of an unordered set, given here in ascending order.
\<close>

definition GetNeighbors :: "QueryGraph \<Rightarrow> RelationSet \<Rightarrow> nat list \<Rightarrow> nat list" where
  "GetNeighbors g s excl =
     sort (remdups (map (\<lambda>n. hd (neighbor n))
       (filter (\<lambda>n. neighbor n \<noteq> [] \<and> disjoint_rs (neighbor n) excl) (edges_from g s))))"

definition GetConnection :: "QueryGraph \<Rightarrow> RelationSet \<Rightarrow> RelationSet \<Rightarrow> NeighborInfo option" where
  "GetConnection g a b =
     (case filter (\<lambda>n. IsSubset b (neighbor n)) (edges_from g a) of
        n # _ \<Rightarrow> Some n
      | [] \<Rightarrow> (case filter (\<lambda>n. IsSubset a (neighbor n)) (edges_from g b) of
                 n # _ \<Rightarrow> Some n
               | [] \<Rightarrow> None))"

text \<open>The ids that can ever be returned as a neighbor.\<close>

definition graph_ids :: "QueryGraph \<Rightarrow> nat set" where
  "graph_ids g = set (map (\<lambda>n. hd (neighbor n)) (concat (map snd g)))"

lemma GetNeighbors_fresh:
  "n \<in> set (GetNeighbors g s excl) \<Longrightarrow> n \<in> graph_ids g \<and> n \<notin> set excl"
proof -
  assume "n \<in> set (GetNeighbors g s excl)"
  then obtain x where x: "x \<in> set (edges_from g s)" "neighbor x \<noteq> []"
      "disjoint_rs (neighbor x) excl" "n = hd (neighbor x)"
    unfolding GetNeighbors_def by auto
  from x(1) have "x \<in> set (concat (map snd g))"
    unfolding edges_from_def by force
  then have "n \<in> graph_ids g"
    unfolding graph_ids_def using x(4) by (simp del: set_concat)
  moreover have "n \<in> set (neighbor x)" using x(2,4) by simp
  then have "n \<notin> set excl" using x(3) by (auto simp: disjoint_rs_def list_all_iff)
  ultimately show ?thesis by simp
qed

lemma card_excl_insert:
  assumes "n \<in> graph_ids g" "n \<notin> set excl"
  shows "card (graph_ids g - insert n (set excl)) < card (graph_ids g - set excl)"
proof -
  have fin: "finite (graph_ids g - set excl)" by (simp add: graph_ids_def)
  have "graph_ids g - insert n (set excl) \<subset> graph_ids g - set excl"
    using assms by auto
  then show ?thesis using fin by (rule psubset_card_mono[rotated])
qed

lemma nth_neighbor_decreases:
  "i < length (GetNeighbors g s excl) \<Longrightarrow>
   card (graph_ids g - insert (GetNeighbors g s excl ! i) (set excl)) < card (graph_ids g - set excl)"
  using GetNeighbors_fresh[OF nth_mem] card_excl_insert by blast

section \<open>Exact enumeration\<close>

type_synonym flagged = "(bool \<times> memo) option"

text \<open>First loop of \<open>EnumerateCmpRecursive\<close>: emit the complement grown by one neighbor.\<close>

fun cmp_emit :: "QueryGraph \<Rightarrow> RelationSet \<Rightarrow> RelationSet \<Rightarrow> nat list \<Rightarrow> memo \<Rightarrow> flagged" where
  "cmp_emit g l r [] m = Some (True, m)"
| "cmp_emit g l r (n # ns) m =
     (let combined_set = Union_rs r (GetRelation n) in
      if plans m combined_set \<noteq> None then
        (case GetConnection g l combined_set of
           None \<Rightarrow> cmp_emit g l r ns m
         | Some connection \<Rightarrow>
             (case TryEmitPair l combined_set connection m of
                None \<Rightarrow> None
              | Some (False, m') \<Rightarrow> Some (False, m')
              | Some (True, m') \<Rightarrow> cmp_emit g l r ns m'))
      else cmp_emit g l r ns m)"

function EnumerateCmpRecursive ::
    "QueryGraph \<Rightarrow> RelationSet \<Rightarrow> RelationSet \<Rightarrow> nat list \<Rightarrow> memo \<Rightarrow> flagged"
  and cmp_recurse ::
    "QueryGraph \<Rightarrow> RelationSet \<Rightarrow> RelationSet \<Rightarrow> nat list \<Rightarrow> nat \<Rightarrow> memo \<Rightarrow> flagged"
where
  "EnumerateCmpRecursive g l r excl m =
     (let neighbors = GetNeighbors g r excl in
      if neighbors = [] then Some (True, m)
      else case cmp_emit g l r neighbors m of
             None \<Rightarrow> None
           | Some (False, m') \<Rightarrow> Some (False, m')
           | Some (True, m') \<Rightarrow> cmp_recurse g l r excl 0 m')"
| "cmp_recurse g l r excl i m =
     (if i < length (GetNeighbors g r excl) then
        (case EnumerateCmpRecursive g l
                (Union_rs r (GetRelation (GetNeighbors g r excl ! i)))
                (List.insert (GetNeighbors g r excl ! i) excl) m of
           None \<Rightarrow> None
         | Some (False, m') \<Rightarrow> Some (False, m')
         | Some (True, m') \<Rightarrow> cmp_recurse g l r excl (Suc i) m')
      else Some (True, m))"
  by pat_completeness auto
termination
  by (relation "inv_image (less_than <*lex*> less_than)
        (\<lambda>x. case x of
           Inl (g, l, r, excl, m) \<Rightarrow>
             (card (graph_ids g - set excl), Suc (length (GetNeighbors g r excl)))
         | Inr (g, l, r, excl, i, m) \<Rightarrow>
             (card (graph_ids g - set excl), length (GetNeighbors g r excl) - i))")
     (auto simp: nth_neighbor_decreases)

declare EnumerateCmpRecursive.simps [simp del] cmp_recurse.simps [simp del]

text \<open>The loop of \<open>EmitCSG\<close> over the sorted neighbors.\<close>

fun csg_emit :: "QueryGraph \<Rightarrow> RelationSet \<Rightarrow> nat list \<Rightarrow> nat list \<Rightarrow> memo \<Rightarrow> flagged" where
  "csg_emit g node excl [] m = Some (True, m)"
| "csg_emit g node excl (n # ns) m =
     (let neighbor_relation = GetRelation n in
      case (case GetConnection g node neighbor_relation of
              None \<Rightarrow> Some (True, m)
            | Some connection \<Rightarrow> TryEmitPair node neighbor_relation connection m) of
        None \<Rightarrow> None
      | Some (False, m') \<Rightarrow> Some (False, m')
      | Some (True, m') \<Rightarrow>
          (case EnumerateCmpRecursive g node neighbor_relation excl m' of
             None \<Rightarrow> None
           | Some (False, m'') \<Rightarrow> Some (False, m'')
           | Some (True, m'') \<Rightarrow> csg_emit g node excl ns m''))"

definition UpdateExclusionSet :: "RelationSet \<Rightarrow> nat list \<Rightarrow> nat list" where
  "UpdateExclusionSet node excl = fold List.insert node excl"

definition EmitCSG :: "QueryGraph \<Rightarrow> RelationSet \<Rightarrow> memo \<Rightarrow> flagged" where
  "EmitCSG g node m =
     (case node of
        [] \<Rightarrow> None
      | r0 # _ \<Rightarrow>
          let exclusion_set = UpdateExclusionSet node (fold List.insert [0..<r0] []);
              neighbors = GetNeighbors g node exclusion_set
          in if neighbors = [] then Some (True, m)
             else csg_emit g node exclusion_set (sort neighbors) m)"

text \<open>First loop of \<open>EnumerateCSGRecursive\<close>.\<close>

fun csg_grow :: "QueryGraph \<Rightarrow> RelationSet \<Rightarrow> nat list \<Rightarrow> memo \<Rightarrow> flagged" where
  "csg_grow g node [] m = Some (True, m)"
| "csg_grow g node (n # ns) m =
     (let new_set = Union_rs node (GetRelation n) in
      if plans m new_set \<noteq> None then
        (case EmitCSG g new_set m of
           None \<Rightarrow> None
         | Some (False, m') \<Rightarrow> Some (False, m')
         | Some (True, m') \<Rightarrow> csg_grow g node ns m')
      else csg_grow g node ns m)"

function EnumerateCSGRecursive ::
    "QueryGraph \<Rightarrow> RelationSet \<Rightarrow> nat list \<Rightarrow> memo \<Rightarrow> flagged"
  and csg_recurse ::
    "QueryGraph \<Rightarrow> RelationSet \<Rightarrow> nat list \<Rightarrow> nat \<Rightarrow> memo \<Rightarrow> flagged"
where
  "EnumerateCSGRecursive g node excl m =
     (let neighbors = GetNeighbors g node excl in
      if neighbors = [] then Some (True, m)
      else case csg_grow g node neighbors m of
             None \<Rightarrow> None
           | Some (False, m') \<Rightarrow> Some (False, m')
           | Some (True, m') \<Rightarrow> csg_recurse g node excl 0 m')"
| "csg_recurse g node excl i m =
     (if i < length (GetNeighbors g node excl) then
        (case EnumerateCSGRecursive g
                (Union_rs node (GetRelation (GetNeighbors g node excl ! i)))
                (List.insert (GetNeighbors g node excl ! i) excl) m of
           None \<Rightarrow> None
         | Some (False, m') \<Rightarrow> Some (False, m')
         | Some (True, m') \<Rightarrow> csg_recurse g node excl (Suc i) m')
      else Some (True, m))"
  by pat_completeness auto
termination
  by (relation "inv_image (less_than <*lex*> less_than)
        (\<lambda>x. case x of
           Inl (g, node, excl, m) \<Rightarrow>
             (card (graph_ids g - set excl), Suc (length (GetNeighbors g node excl)))
         | Inr (g, node, excl, i, m) \<Rightarrow>
             (card (graph_ids g - set excl), length (GetNeighbors g node excl) - i))")
     (auto simp: nth_neighbor_decreases)

declare EnumerateCSGRecursive.simps [simp del] csg_recurse.simps [simp del]

text \<open>
  \<open>SolveJoinOrderExactly\<close>: the start nodes \<open>i - 1\<close> for \<open>i\<close> from the number of relations down
  to 1.
\<close>

fun exact_loop :: "QueryGraph \<Rightarrow> nat \<Rightarrow> memo \<Rightarrow> flagged" where
  "exact_loop g 0 m = Some (True, m)"
| "exact_loop g (Suc k) m =
     (let start_node = GetRelation k in
      case EmitCSG g start_node m of
        None \<Rightarrow> None
      | Some (False, m') \<Rightarrow> Some (False, m')
      | Some (True, m') \<Rightarrow>
          (case EnumerateCSGRecursive g start_node (fold List.insert [0..<k] []) m' of
             None \<Rightarrow> None
           | Some (False, m'') \<Rightarrow> Some (False, m'')
           | Some (True, m'') \<Rightarrow> exact_loop g k m''))"

definition SolveJoinOrderExactly :: "nat \<Rightarrow> QueryGraph \<Rightarrow> memo \<Rightarrow> flagged" where
  "SolveJoinOrderExactly n g m = exact_loop g n m"

section \<open>Greedy operator ordering\<close>

text \<open>The best connected pair found so far: the node and the two indexes into \<open>T\<close>.\<close>

type_synonym best = "(JoinNode \<times> nat \<times> nat) option"

definition index_pairs :: "nat \<Rightarrow> (nat \<times> nat) list" where
  "index_pairs n = concat (map (\<lambda>i. map (\<lambda>j. (i, j)) [Suc i..<n]) [0..<n])"

definition better :: "JoinNode \<Rightarrow> best \<Rightarrow> bool" where
  "better node b = (case b of None \<Rightarrow> True | Some (bn, _, _) \<Rightarrow> cost node < cost bn)"

fun goo_pairs ::
  "QueryGraph \<Rightarrow> RelationSet list \<Rightarrow> (nat \<times> nat) list \<Rightarrow> memo \<Rightarrow> best \<Rightarrow> (memo \<times> best) option" where
  "goo_pairs g T [] m b = Some (m, b)"
| "goo_pairs g T ((i, j) # ps) m b =
     (case GetConnection g (T ! i) (T ! j) of
        None \<Rightarrow> goo_pairs g T ps m b
      | Some connection \<Rightarrow>
          (case EmitPair (T ! i) (T ! j) connection m of
             None \<Rightarrow> None
           | Some (node, m') \<Rightarrow>
               goo_pairs g T ps m' (if better node b then Some (node, i, j) else b)))"

text \<open>
  The two slots \<open>smallest_plans[0..1]\<close> with \<open>smallest_index[0..1]\<close>: the plan of \<open>T[i]\<close> goes
  into the first slot that is empty or holds a larger cardinality, and the scan of the slots
  stops there.
\<close>

type_synonym slots = "(JoinNode \<times> nat) option \<times> (JoinNode \<times> nat) option"

definition slot_takes :: "(JoinNode \<times> nat) option \<Rightarrow> JoinNode \<Rightarrow> bool" where
  "slot_takes s p = (case s of None \<Rightarrow> True | Some (q, _) \<Rightarrow> cardinality q > cardinality p)"

definition slot_update :: "JoinNode \<Rightarrow> nat \<Rightarrow> slots \<Rightarrow> slots" where
  "slot_update p i s =
     (if slot_takes (fst s) p then (Some (p, i), snd s)
      else if slot_takes (snd s) p then (fst s, Some (p, i))
      else s)"

fun smallest_scan :: "memo \<Rightarrow> RelationSet list \<Rightarrow> nat \<Rightarrow> slots \<Rightarrow> slots option" where
  "smallest_scan m [] i s = Some s"
| "smallest_scan m (t # ts) i s =
     (case plans m t of
        None \<Rightarrow> None
      | Some current_plan \<Rightarrow> smallest_scan m ts (Suc i) (slot_update current_plan i s))"

definition erase_at :: "nat \<Rightarrow> 'a list \<Rightarrow> 'a list" where
  "erase_at i xs = take i xs @ drop (Suc i) xs"

text \<open>
  The end of one round: \<open>assert(best_right > best_left)\<close>, the two erasures (an index outside
  the vector has no defined behaviour) and the new fragment at the end.
\<close>

definition goo_finish ::
  "QueryGraph \<Rightarrow> memo \<Rightarrow> RelationSet list \<Rightarrow> JoinNode \<Rightarrow> nat \<Rightarrow> nat \<Rightarrow>
   (QueryGraph \<times> memo \<times> RelationSet list) option" where
  "goo_finish g m T best_connection best_left best_right =
     (if best_left < best_right \<and> best_right < length T
      then Some (g, m, erase_at best_left (erase_at best_right T) @ [set_j best_connection])
      else None)"

definition goo_cross ::
  "QueryGraph \<Rightarrow> memo \<Rightarrow> RelationSet list \<Rightarrow> (QueryGraph \<times> memo \<times> RelationSet list) option" where
  "goo_cross g m T =
     (case smallest_scan m T 0 (None, None) of
        Some (Some (p0, i0), Some (p1, i1)) \<Rightarrow>
          if i0 = i1 then None
          else
            let l = set_j p0; r = set_j p1;
                g' = CreateEdge g l r None
            in (case GetConnection g' l r of
                  None \<Rightarrow> None
                | Some connection \<Rightarrow>
                    (case EmitPair l r connection m of
                       None \<Rightarrow> None
                     | Some (node, m') \<Rightarrow>
                         if i0 > i1 then goo_finish g' m' T node i1 i0
                         else goo_finish g' m' T node i0 i1))
      | _ \<Rightarrow> None)"

definition goo_step ::
  "QueryGraph \<Rightarrow> memo \<Rightarrow> RelationSet list \<Rightarrow> (QueryGraph \<times> memo \<times> RelationSet list) option" where
  "goo_step g m T =
     (case goo_pairs g T (index_pairs (length T)) m None of
        None \<Rightarrow> None
      | Some (m', Some (node, best_left, best_right)) \<Rightarrow> goo_finish g m' T node best_left best_right
      | Some (m', None) \<Rightarrow> goo_cross g m' T)"

lemma goo_finish_length:
  "goo_finish g m T n bl br = Some (g', m', T') \<Longrightarrow> length T' < length T"
  by (auto simp: goo_finish_def erase_at_def split: if_splits)

lemma goo_step_length:
  "goo_step g m T = Some (g', m', T') \<Longrightarrow> length T' < length T"
  unfolding goo_step_def goo_cross_def
  by (auto simp: Let_def split: option.splits prod.splits if_splits dest: goo_finish_length)

function goo_loop :: "QueryGraph \<Rightarrow> memo \<Rightarrow> RelationSet list \<Rightarrow> (QueryGraph \<times> memo) option" where
  "goo_loop g m T =
     (if length T > 1 then
        (case goo_step g m T of
           None \<Rightarrow> None
         | Some (g', m', T') \<Rightarrow> goo_loop g' m' T')
      else Some (g, m))"
  by pat_completeness auto
termination
  by (relation "measure (\<lambda>(g, m, T). length T)") (auto dest: goo_step_length)

declare goo_loop.simps [simp del]

definition SolveJoinOrderApproximately :: "nat \<Rightarrow> QueryGraph \<Rightarrow> memo \<Rightarrow> (QueryGraph \<times> memo) option" where
  "SolveJoinOrderApproximately n g m = goo_loop g m (map GetRelation [0..<n])"

definition SolveJoinOrder :: "nat \<Rightarrow> QueryGraph \<Rightarrow> memo \<Rightarrow> (QueryGraph \<times> memo) option" where
  "SolveJoinOrder n g m =
     (case SolveJoinOrderExactly n g m of
        None \<Rightarrow> None
      | Some (True, m') \<Rightarrow> Some (g, m')
      | Some (False, m') \<Rightarrow> SolveJoinOrderApproximately n g m')"

fun cross_edges :: "(nat \<times> nat) list \<Rightarrow> QueryGraph \<Rightarrow> QueryGraph" where
  "cross_edges [] g = g"
| "cross_edges ((i, j) # ps) g =
     (if i \<noteq> j
      then cross_edges ps
             (CreateEdge (CreateEdge g (GetRelation i) (GetRelation j) None)
                (GetRelation j) (GetRelation i) None)
      else cross_edges ps g)"

definition GenerateCrossProducts :: "nat \<Rightarrow> QueryGraph \<Rightarrow> QueryGraph" where
  "GenerateCrossProducts n g =
     cross_edges (concat (map (\<lambda>i. map (\<lambda>j. (i, j)) [0..<n]) [0..<n])) g"

section \<open>Expressions and logical operators\<close>

text \<open>
  The declarations of the expression and operator classes are not among the sources.  An
  expression is a bound column reference with its table index and depth, a bound
  execution-time reference, a subquery (correlated or not), a comparison (the types
  \<open>COMPARE_EQUAL\<close> up to \<open>COMPARE_NOTLIKE\<close>, the class \<open>COMPARISON\<close>), a logical NOT, or any
  other expression with its children.
\<close>

datatype Comparator =
  COMPARE_EQUAL | COMPARE_NOTEQUAL | COMPARE_LESSTHAN | COMPARE_GREATERTHAN
| COMPARE_LESSTHANOREQUALTO | COMPARE_GREATERTHANOREQUALTO | COMPARE_LIKE | COMPARE_NOTLIKE

datatype Expression =
  BoundColumnRef nat nat
| BoundRef
| SubqueryExpr bool "Expression list"
| Comparison Comparator Expression Expression
| OperatorNot "Expression list"
| OtherExpr "Expression list"

text \<open>
  Modelled from the spec: \<open>FlipComparisionExpression\<close> and \<open>NegateComparisionExpression\<close> are
  not among the sources.  The spec gives them on the six order comparators; the other two
  are left as they are.
\<close>

fun FlipComparisionExpression :: "Comparator \<Rightarrow> Comparator" where
  "FlipComparisionExpression COMPARE_LESSTHAN = COMPARE_GREATERTHAN"
| "FlipComparisionExpression COMPARE_GREATERTHAN = COMPARE_LESSTHAN"
| "FlipComparisionExpression COMPARE_LESSTHANOREQUALTO = COMPARE_GREATERTHANOREQUALTO"
| "FlipComparisionExpression COMPARE_GREATERTHANOREQUALTO = COMPARE_LESSTHANOREQUALTO"
| "FlipComparisionExpression c = c"

fun NegateComparisionExpression :: "Comparator \<Rightarrow> Comparator" where
  "NegateComparisionExpression COMPARE_EQUAL = COMPARE_NOTEQUAL"
| "NegateComparisionExpression COMPARE_NOTEQUAL = COMPARE_EQUAL"
| "NegateComparisionExpression COMPARE_LESSTHAN = COMPARE_GREATERTHANOREQUALTO"
| "NegateComparisionExpression COMPARE_GREATERTHANOREQUALTO = COMPARE_LESSTHAN"
| "NegateComparisionExpression COMPARE_GREATERTHAN = COMPARE_LESSTHANOREQUALTO"
| "NegateComparisionExpression COMPARE_LESSTHANOREQUALTO = COMPARE_GREATERTHAN"
| "NegateComparisionExpression c = c"

datatype LogicalOperatorType =
  GET | SUBQUERY | TABLE_FUNCTION | FILTER | JOIN | CROSS_PRODUCT
| AGGREGATE_AND_GROUP_BY | UNION | EXCEPT | INTERSECT | PROJECTION | OTHER_OPERATOR

datatype JoinType = INNER | LEFT_OUTER | RIGHT_OUTER | FULL_OUTER | SEMI | ANTI | MARK

record JoinCondition =
  left_c :: Expression
  right_c :: Expression
  comparison :: Comparator

text \<open>
  One operator node: its type, its children, its raw expressions, and the fields that only
  some types use (the table index of a scan, subquery or table function; the join type and
  the join conditions of a join).
\<close>

datatype LogicalOperator =
  LogicalOperator (op_type: LogicalOperatorType) (children: "LogicalOperator list")
    (expressions: "Expression list") (table_index: nat) (join_type: JoinType)
    (conditions: "JoinCondition list")

definition set_children :: "LogicalOperator \<Rightarrow> LogicalOperator list \<Rightarrow> LogicalOperator" where
  "set_children op cs =
     LogicalOperator (op_type op) cs (expressions op) (table_index op) (join_type op) (conditions op)"

definition set_expressions :: "LogicalOperator \<Rightarrow> Expression list \<Rightarrow> LogicalOperator" where
  "set_expressions op es =
     LogicalOperator (op_type op) (children op) es (table_index op) (join_type op) (conditions op)"

definition set_conditions :: "LogicalOperator \<Rightarrow> JoinCondition list \<Rightarrow> LogicalOperator" where
  "set_conditions op cs =
     LogicalOperator (op_type op) (children op) (expressions op) (table_index op) (join_type op) cs"

definition LogicalFilter :: "LogicalOperator list \<Rightarrow> Expression list \<Rightarrow> LogicalOperator" where
  "LogicalFilter cs es = LogicalOperator FILTER cs es 0 INNER []"

definition LogicalCrossProduct :: "LogicalOperator list \<Rightarrow> LogicalOperator" where
  "LogicalCrossProduct cs = LogicalOperator CROSS_PRODUCT cs [] 0 INNER []"

definition LogicalJoin :: "JoinType \<Rightarrow> LogicalOperator list \<Rightarrow> JoinCondition list \<Rightarrow> LogicalOperator" where
  "LogicalJoin t cs conds = LogicalOperator JOIN cs [] 0 t conds"

definition PushFilter :: "LogicalOperator \<Rightarrow> Expression \<Rightarrow> LogicalOperator" where
  "PushFilter node expr =
     (if op_type node \<noteq> FILTER then LogicalFilter [node] [expr]
      else set_expressions node (expressions node @ [expr]))"

fun GetTableReferences :: "LogicalOperator \<Rightarrow> nat list \<Rightarrow> nat list"
  and GetTableReferences_children :: "LogicalOperator list \<Rightarrow> nat list \<Rightarrow> nat list" where
  "GetTableReferences (LogicalOperator t cs es ti jt conds) bindings =
     (if t = GET \<or> t = SUBQUERY \<or> t = TABLE_FUNCTION then List.insert ti bindings
      else GetTableReferences_children cs bindings)"
| "GetTableReferences_children [] bindings = bindings"
| "GetTableReferences_children (c # cs) bindings =
     GetTableReferences_children cs (GetTableReferences c bindings)"

section \<open>Binding extraction\<close>

text \<open>
  \<open>ExtractBindings\<close> returns its flag together with the bindings.  A poisoned subexpression
  clears the bindings and returns false; the enumeration of the children of its parent goes
  on with the next child (the \<open>return\<close> in the source leaves the callback, not the
  enumeration).  The two assertions on a column reference are failures.
\<close>

fun ExtractBindings :: "(nat \<rightharpoonup> nat) \<Rightarrow> Expression \<Rightarrow> nat list \<Rightarrow> (bool \<times> nat list) option"
  and ExtractBindings_children ::
    "(nat \<rightharpoonup> nat) \<Rightarrow> Expression list \<Rightarrow> nat list \<Rightarrow> bool \<Rightarrow> (bool \<times> nat list) option" where
  "ExtractBindings rm (BoundColumnRef ti depth) bindings =
     (if depth > 0 then Some (False, [])
      else if ti = 4294967295 then None
      else (case rm ti of None \<Rightarrow> None | Some r \<Rightarrow> Some (True, List.insert r bindings)))"
| "ExtractBindings rm BoundRef bindings = Some (False, [])"
| "ExtractBindings rm (SubqueryExpr is_correlated es) bindings =
     (if is_correlated then Some (False, [])
      else ExtractBindings_children rm es bindings True)"
| "ExtractBindings rm (Comparison c l r) bindings =
     (case ExtractBindings rm l bindings of
        None \<Rightarrow> None
      | Some (ok1, b1) \<Rightarrow>
          (case ExtractBindings rm r b1 of
             None \<Rightarrow> None
           | Some (ok2, b2) \<Rightarrow> Some (ok1 \<and> ok2, b2)))"
| "ExtractBindings rm (OperatorNot es) bindings = ExtractBindings_children rm es bindings True"
| "ExtractBindings rm (OtherExpr es) bindings = ExtractBindings_children rm es bindings True"
| "ExtractBindings_children rm [] bindings can_reorder = Some (can_reorder, bindings)"
| "ExtractBindings_children rm (e # es) bindings can_reorder =
     (case ExtractBindings rm e bindings of
        None \<Rightarrow> None
      | Some (ok, b) \<Rightarrow> ExtractBindings_children rm es b (can_reorder \<and> ok))"

definition Disjoint :: "nat list \<Rightarrow> nat list \<Rightarrow> bool" where
  "Disjoint a b = list_all (\<lambda>entry. entry \<notin> set b) a"

section \<open>Join sides and join conditions\<close>

datatype JoinSide = NONE | LEFT | RIGHT | BOTH

definition CombineJoinSide :: "JoinSide \<Rightarrow> JoinSide \<Rightarrow> JoinSide" where
  "CombineJoinSide l r =
     (if l = NONE then r else if r = NONE then l else if l \<noteq> r then BOTH else l)"

fun GetJoinSide :: "Expression \<Rightarrow> nat list \<Rightarrow> nat list \<Rightarrow> JoinSide option"
  and GetJoinSide_children :: "Expression list \<Rightarrow> nat list \<Rightarrow> nat list \<Rightarrow> JoinSide \<Rightarrow> JoinSide option" where
  "GetJoinSide (BoundColumnRef ti depth) lb rb =
     (if depth > 0 then Some BOTH
      else if ti \<in> set lb then (if ti \<in> set rb then None else Some LEFT)
      else (if ti \<in> set rb then Some RIGHT else None))"
| "GetJoinSide BoundRef lb rb = Some NONE"
| "GetJoinSide (SubqueryExpr c es) lb rb = Some BOTH"
| "GetJoinSide (Comparison c l r) lb rb =
     (case GetJoinSide l lb rb of
        None \<Rightarrow> None
      | Some s1 \<Rightarrow>
          (case GetJoinSide r lb rb of
             None \<Rightarrow> None
           | Some s2 \<Rightarrow> Some (CombineJoinSide s2 (CombineJoinSide s1 NONE))))"
| "GetJoinSide (OperatorNot es) lb rb = GetJoinSide_children es lb rb NONE"
| "GetJoinSide (OtherExpr es) lb rb = GetJoinSide_children es lb rb NONE"
| "GetJoinSide_children [] lb rb join_side = Some join_side"
| "GetJoinSide_children (e # es) lb rb join_side =
     (case GetJoinSide e lb rb of
        None \<Rightarrow> None
      | Some child_side \<Rightarrow> GetJoinSide_children es lb rb (CombineJoinSide child_side join_side))"

text \<open>
  \<open>CreateJoinCondition\<close> works on the operator \<open>op\<close> at the top and on the join below or at it.
  The top is either the join itself or one filter that \<open>PushFilter\<close> has put above it: the
  first component holds the expressions of that filter, if there is one.
\<close>

type_synonym join_top = "Expression list option \<times> LogicalOperator"

definition push_top :: "join_top \<Rightarrow> Expression \<Rightarrow> join_top" where
  "push_top jt expr = (case fst jt of None \<Rightarrow> (Some [expr], snd jt)
                       | Some es \<Rightarrow> (Some (es @ [expr]), snd jt))"

definition order_comparator :: "Comparator \<Rightarrow> bool" where
  "order_comparator c = (c \<noteq> COMPARE_LIKE \<and> c \<noteq> COMPARE_NOTLIKE)"

function CreateJoinCondition :: "join_top \<Rightarrow> Expression \<Rightarrow> nat list \<Rightarrow> nat list \<Rightarrow> join_top option" where
  "CreateJoinCondition jt expr lb rb =
     (case GetJoinSide expr lb rb of
        None \<Rightarrow> None
      | Some total_side \<Rightarrow>
          if total_side \<noteq> BOTH then
            (let push_side = (if total_side = LEFT then 0 else 1) in
             if push_side < length (children (snd jt))
             then Some (fst jt, set_children (snd jt)
                    ((children (snd jt))[push_side := PushFilter (children (snd jt) ! push_side) expr]))
             else None)
          else
            (case expr of
               Comparison c l r \<Rightarrow>
                 (case GetJoinSide l lb rb of
                    None \<Rightarrow> None
                  | Some left_side \<Rightarrow>
                      (case GetJoinSide r lb rb of
                         None \<Rightarrow> None
                       | Some right_side \<Rightarrow>
                           if left_side \<noteq> BOTH \<and> right_side \<noteq> BOTH then
                             Some (fst jt, set_conditions (snd jt) (conditions (snd jt) @
                               [if left_side = RIGHT
                                then \<lparr>left_c = r, right_c = l, comparison = FlipComparisionExpression c\<rparr>
                                else \<lparr>left_c = l, right_c = r, comparison = c\<rparr>]))
                           else Some (push_top jt expr)))
             | OperatorNot es \<Rightarrow>
                 (case es of
                    [Comparison c l r] \<Rightarrow>
                      if order_comparator c
                      then CreateJoinCondition jt (Comparison (NegateComparisionExpression c) l r) lb rb
                      else Some (push_top jt expr)
                  | [_] \<Rightarrow> Some (push_top jt expr)
                  | _ \<Rightarrow> None)
             | _ \<Rightarrow> Some (push_top jt expr)))"
  by pat_completeness auto
termination
  by (relation "measure (\<lambda>(jt, expr, lb, rb). size expr)") auto

declare CreateJoinCondition.simps [simp del]

fun resolve_expressions :: "join_top \<Rightarrow> Expression list \<Rightarrow> nat list \<Rightarrow> nat list \<Rightarrow> join_top option" where
  "resolve_expressions jt [] lb rb = Some jt"
| "resolve_expressions jt (e # es) lb rb =
     (case CreateJoinCondition jt e lb rb of
        None \<Rightarrow> None
      | Some jt' \<Rightarrow> resolve_expressions jt' es lb rb)"

definition close_top :: "join_top \<Rightarrow> LogicalOperator" where
  "close_top jt = (case fst jt of None \<Rightarrow> set_expressions (snd jt) []
                   | Some es \<Rightarrow> LogicalFilter [set_expressions (snd jt) []] es)"

text \<open>The part of \<open>ResolveJoinConditions\<close> after the children have been resolved.\<close>

definition resolve_join :: "LogicalOperator \<Rightarrow> LogicalOperator option" where
  "resolve_join op =
     (if op_type op = JOIN \<and> length (expressions op) > 0 then
        (if length (children op) < 2 then None
         else
           let left_bindings = GetTableReferences (children op ! 0) [];
               right_bindings = GetTableReferences (children op ! 1) []
           in map_option close_top
                (resolve_expressions (None, op) (expressions op) left_bindings right_bindings))
      else Some op)"

fun ResolveJoinConditions :: "LogicalOperator \<Rightarrow> LogicalOperator option"
  and resolve_children :: "LogicalOperator list \<Rightarrow> LogicalOperator list option" where
  "ResolveJoinConditions (LogicalOperator t cs es ti jt conds) =
     (case resolve_children cs of
        None \<Rightarrow> None
      | Some cs' \<Rightarrow> resolve_join (LogicalOperator t cs' es ti jt conds))"
| "resolve_children [] = Some []"
| "resolve_children (c # cs) =
     (case ResolveJoinConditions c of
        None \<Rightarrow> None
      | Some c' \<Rightarrow> map_option ((#) c') (resolve_children cs))"

section \<open>Filters and edges\<close>

text \<open>
  A pointer to an operator inside the plan is the list of child indexes that leads to it
  from the root of the plan.
\<close>

type_synonym path = "nat list"

fun subtree_at :: "LogicalOperator \<Rightarrow> path \<Rightarrow> LogicalOperator option" where
  "subtree_at op [] = Some op"
| "subtree_at op (i # p) =
     (if i < length (children op) then subtree_at (children op ! i) p else None)"

fun update_at :: "LogicalOperator \<Rightarrow> path \<Rightarrow> (LogicalOperator \<Rightarrow> LogicalOperator) \<Rightarrow> LogicalOperator option" where
  "update_at op [] f = Some (f op)"
| "update_at op (i # p) f =
     (if i < length (children op)
      then map_option (\<lambda>c. set_children op ((children op)[i := c])) (update_at (children op ! i) p f)
      else None)"

text \<open>\<open>ExtractFilters\<close> on every operator of \<open>filter_operators\<close>, in their order.\<close>

fun extract_filters :: "LogicalOperator \<Rightarrow> path list \<Rightarrow> Expression list \<Rightarrow> (LogicalOperator \<times> Expression list) option" where
  "extract_filters plan [] fs = Some (plan, fs)"
| "extract_filters plan (p # ps) fs =
     (case subtree_at plan p of
        None \<Rightarrow> None
      | Some op \<Rightarrow>
          (case update_at plan p (\<lambda>op. set_expressions op []) of
             None \<Rightarrow> None
           | Some plan' \<Rightarrow> extract_filters plan' ps (fs @ expressions op)))"

text \<open>
  One round of the loop of \<open>Optimize\<close> that creates the FilterInfo of filter \<open>i\<close> and its
  edges.  The flag of \<open>ExtractBindings\<close> is not looked at.  \<open>left_set\<close> and \<open>right_set\<close> stay
  null (the empty list here) unless both sides of a comparison have bindings.
\<close>

definition filter_edges :: "(nat \<rightharpoonup> nat) \<Rightarrow> nat \<Rightarrow> Expression \<Rightarrow> QueryGraph \<Rightarrow> (FilterInfo \<times> QueryGraph) option" where
  "filter_edges rm i filter_e g =
     (case ExtractBindings rm filter_e [] of
        None \<Rightarrow> None
      | Some (_, bindings) \<Rightarrow>
          (let filter_info = \<lparr>filter_index = i, set_f = GetRelationSet bindings,
                               left_set = [], right_set = []\<rparr>
           in case filter_e of
                Comparison c l r \<Rightarrow>
                  (case ExtractBindings rm l [] of
                     None \<Rightarrow> None
                   | Some (_, left_bindings) \<Rightarrow>
                       (case ExtractBindings rm r [] of
                          None \<Rightarrow> None
                        | Some (_, right_bindings) \<Rightarrow>
                            if length left_bindings > 0 \<and> length right_bindings > 0 then
                              (let ls = GetRelationSet left_bindings;
                                   rs = GetRelationSet right_bindings;
                                   fi = filter_info\<lparr>left_set := ls, right_set := rs\<rparr>
                               in if ls \<noteq> rs then
                                    (if Disjoint left_bindings right_bindings then
                                       Some (fi, CreateEdge (CreateEdge g ls rs (Some fi)) rs ls (Some fi))
                                     else
                                       (let left_difference = Difference_rs ls rs;
                                            right_difference = Difference_rs rs ls
                                        in Some (fi,
                                             CreateEdge
                                               (CreateEdge
                                                  (CreateEdge
                                                     (CreateEdge g ls right_difference (Some fi))
                                                     right_difference ls (Some fi))
                                                  left_difference rs (Some fi))
                                               rs left_difference (Some fi))))
                                  else Some (fi, g))
                            else Some (filter_info, g)))
              | _ \<Rightarrow> Some (filter_info, g)))"

fun edge_pass ::
  "(nat \<rightharpoonup> nat) \<Rightarrow> nat \<Rightarrow> Expression list \<Rightarrow> FilterInfo list \<Rightarrow> QueryGraph \<Rightarrow> (FilterInfo list \<times> QueryGraph) option" where
  "edge_pass rm i [] fis g = Some (fis, g)"
| "edge_pass rm i (f # fs) fis g =
     (case filter_edges rm i f g of
        None \<Rightarrow> None
      | Some (fi, g') \<Rightarrow> edge_pass rm (Suc i) fs (fis @ [fi]) g')"

section \<open>Rebuilding the join region\<close>

text \<open>
  \<open>filters\<close> and \<open>extracted_relations\<close> hold owning pointers: an entry is \<open>None\<close> once it has
  been moved out.
\<close>

record rewrite_state =
  filters :: "Expression option list"
  extracted_relations :: "LogicalOperator option list"

fun make_conditions ::
  "RelationSet \<Rightarrow> RelationSet \<Rightarrow> FilterInfo list \<Rightarrow> Expression option list \<Rightarrow> JoinCondition list \<Rightarrow>
   (JoinCondition list \<times> Expression option list) option" where
  "make_conditions lfirst rfirst [] fs conds = Some (conds, fs)"
| "make_conditions lfirst rfirst (f # rest) fs conds =
     (if filter_index f \<ge> length fs then None
      else case fs ! filter_index f of
        None \<Rightarrow> None
      | Some condition \<Rightarrow>
          if \<not> ((IsSubset lfirst (left_set f) \<and> IsSubset rfirst (right_set f)) \<or>
                (IsSubset lfirst (right_set f) \<and> IsSubset rfirst (left_set f))) then None
          else
            (case condition of
               Comparison c l r \<Rightarrow>
                 (let invert = (if IsSubset lfirst (left_set f) then False else True);
                      cond = (if \<not> invert then \<lparr>left_c = l, right_c = r, comparison = c\<rparr>
                              else \<lparr>left_c = r, right_c = l,
                                    comparison = FlipComparisionExpression c\<rparr>)
                  in make_conditions lfirst rfirst rest (fs[filter_index f := None]) (conds @ [cond]))
             | _ \<Rightarrow> None))"

definition is_comparison :: "Expression \<Rightarrow> bool" where
  "is_comparison e = (case e of Comparison c l r \<Rightarrow> True | _ \<Rightarrow> False)"

definition push_residual :: "LogicalOperator \<Rightarrow> Expression \<Rightarrow> LogicalOperator option" where
  "push_residual result_operator filter_e =
     (if is_comparison filter_e then
        (if op_type result_operator = JOIN then
           Some (set_expressions result_operator (expressions result_operator @ [filter_e]))
         else if op_type result_operator = FILTER then
           (case children result_operator of
              [] \<Rightarrow> None
            | c # cs \<Rightarrow>
                if op_type c = JOIN
                then Some (set_children result_operator
                             (set_expressions c (expressions c @ [filter_e]) # cs))
                else Some (set_expressions result_operator
                             (expressions result_operator @ [filter_e])))
         else Some (PushFilter result_operator filter_e))
      else Some (PushFilter result_operator filter_e))"

fun pushdown ::
  "RelationSet \<Rightarrow> FilterInfo list \<Rightarrow> LogicalOperator \<Rightarrow> Expression option list \<Rightarrow>
   (LogicalOperator \<times> Expression option list) option" where
  "pushdown result_relation [] op fs = Some (op, fs)"
| "pushdown result_relation (info_f # rest) op fs =
     (if filter_index info_f \<ge> length fs then None
      else case fs ! filter_index info_f of
        None \<Rightarrow> pushdown result_relation rest op fs
      | Some filter_e \<Rightarrow>
          if length (set_f info_f) > 0 \<and> IsSubset result_relation (set_f info_f) then
            (case push_residual op filter_e of
               None \<Rightarrow> None
             | Some op' \<Rightarrow> pushdown result_relation rest op' (fs[filter_index info_f := None]))
          else pushdown result_relation rest op fs)"

fun GenerateJoins ::
  "FilterInfo list \<Rightarrow> JoinNode \<Rightarrow> rewrite_state \<Rightarrow> ((RelationSet \<times> LogicalOperator) \<times> rewrite_state) option" where
  "GenerateJoins fis (JoinNode s i (Some l) (Some r) c k) st =
     (case GenerateJoins fis l st of
        None \<Rightarrow> None
      | Some ((lfirst, lop), st1) \<Rightarrow>
          (case GenerateJoins fis r st1 of
             None \<Rightarrow> None
           | Some ((rfirst, rop), st2) \<Rightarrow>
               (case i of
                  None \<Rightarrow> None
                | Some ninfo \<Rightarrow>
                    (case (if length (filters_n ninfo) = 0
                           then Some (LogicalCrossProduct [lop, rop], filters st2)
                           else map_option (\<lambda>(conds, fs). (LogicalJoin INNER [lop, rop] conds, fs))
                                  (make_conditions lfirst rfirst (filters_n ninfo) (filters st2) [])) of
                       None \<Rightarrow> None
                     | Some (result_operator, fs) \<Rightarrow>
                         map_option (\<lambda>(op', fs'). ((Union_rs lfirst rfirst, op'), st2\<lparr>filters := fs'\<rparr>))
                           (pushdown (Union_rs lfirst rfirst) fis result_operator fs)))))"
| "GenerateJoins fis (JoinNode s i l r c k) st =
     (if length s \<noteq> 1 then None
      else if s ! 0 \<ge> length (extracted_relations st) then None
      else case extracted_relations st ! (s ! 0) of
        None \<Rightarrow> None
      | Some result_operator \<Rightarrow>
          map_option (\<lambda>(op', fs').
              ((s, op'), st\<lparr>filters := fs',
                            extracted_relations := (extracted_relations st)[s ! 0 := None]\<rparr>))
            (pushdown s fis result_operator (filters st)))"

function final_pushdown :: "nat \<Rightarrow> Expression option list \<Rightarrow> LogicalOperator \<Rightarrow> LogicalOperator \<times> Expression option list" where
  "final_pushdown i fs join_tree =
     (if i < length fs then
        (case fs ! i of
           None \<Rightarrow> final_pushdown (Suc i) fs join_tree
         | Some e \<Rightarrow> final_pushdown (Suc i) (fs[i := None]) (PushFilter join_tree e))
      else (join_tree, fs))"
  by pat_completeness auto
termination
  by (relation "measure (\<lambda>(i, fs, jt). length fs - i)") auto

declare final_pushdown.simps [simp del]

text \<open>
  \<open>ExtractRelation\<close> takes the operator of a relation out of the children of its parent.  What
  is left of the old join region is never read again, so the operator is read at its place.
  A relation without a parent has no children list to search.
\<close>

definition ExtractRelation :: "LogicalOperator \<Rightarrow> path \<Rightarrow> LogicalOperator option" where
  "ExtractRelation plan p = (if p = [] then None else subtree_at plan p)"

fun extract_all :: "LogicalOperator \<Rightarrow> path list \<Rightarrow> LogicalOperator option list option" where
  "extract_all plan [] = Some []"
| "extract_all plan (p # ps) =
     (case ExtractRelation plan p of
        None \<Rightarrow> None
      | Some op \<Rightarrow> map_option ((#) (Some op)) (extract_all plan ps))"

definition is_join_region :: "LogicalOperator \<Rightarrow> bool" where
  "is_join_region op = (op_type op = CROSS_PRODUCT \<or> op_type op = JOIN)"

text \<open>
  The walk from the root of the plan through single children down to the first join or cross
  product, whose place the new region takes.
\<close>

fun descend :: "LogicalOperator \<Rightarrow> LogicalOperator \<Rightarrow> LogicalOperator option" where
  "descend (LogicalOperator t cs es ti jty conds) join_tree =
     (case cs of
        [c] \<Rightarrow>
          if is_join_region c then Some (LogicalOperator t [join_tree] es ti jty conds)
          else map_option (\<lambda>c'. LogicalOperator t [c'] es ti jty conds) (descend c join_tree)
      | _ \<Rightarrow> None)"

definition restitch :: "LogicalOperator \<Rightarrow> LogicalOperator \<Rightarrow> LogicalOperator option" where
  "restitch plan join_tree =
     (if length (children plan) \<noteq> 1 then None
      else if is_join_region plan then Some (set_children plan [join_tree])
      else descend plan join_tree)"

definition RewritePlan ::
  "FilterInfo list \<Rightarrow> path list \<Rightarrow> Expression option list \<Rightarrow> LogicalOperator \<Rightarrow> JoinNode \<Rightarrow>
   (LogicalOperator \<times> Expression option list) option" where
  "RewritePlan fis rels fs plan node =
     (let root_is_join = (length (children plan) > 1) in
      case extract_all plan rels of
        None \<Rightarrow> None
      | Some extracted \<Rightarrow>
          (case GenerateJoins fis node \<lparr>filters = fs, extracted_relations = extracted\<rparr> of
             None \<Rightarrow> None
           | Some ((rel, join_tree), st) \<Rightarrow>
               (let (join_tree', fs') = final_pushdown 0 (filters st) join_tree in
                if root_is_join then Some (join_tree', fs')
                else (case restitch plan join_tree' of
                        None \<Rightarrow> None
                      | Some plan' \<Rightarrow> map_option (\<lambda>p. (p, fs')) (ResolveJoinConditions plan')))))"

section \<open>Optimize\<close>

text \<open>
  What \<open>ExtractJoinRelations\<close> collects: the relations (each the place of its operator; its
  parent is the operator one step above), the map from table indexes to relation ids, and
  the operators whose filters are to be extracted.
\<close>

record extraction =
  relations :: "path list"
  relation_mapping :: "nat \<rightharpoonup> nat"
  filter_operators :: "path list"

definition add_relation :: "path \<Rightarrow> nat list \<Rightarrow> extraction \<Rightarrow> extraction" where
  "add_relation p bindings ex =
     ex\<lparr>relation_mapping :=
           fold (\<lambda>it rm. rm(it \<mapsto> length (relations ex))) bindings (relation_mapping ex),
        relations := relations ex @ [p]\<rparr>"

definition add_filter_operator :: "path \<Rightarrow> extraction \<Rightarrow> extraction" where
  "add_filter_operator p ex = ex\<lparr>filter_operators := filter_operators ex @ [p]\<rparr>"

fun init_plans ::
  "(LogicalOperator \<Rightarrow> size_t) \<Rightarrow> LogicalOperator \<Rightarrow> path list \<Rightarrow> nat \<Rightarrow>
   (RelationSet \<rightharpoonup> JoinNode) \<Rightarrow> (RelationSet \<rightharpoonup> JoinNode) option" where
  "init_plans est plan [] i pl = Some pl"
| "init_plans est plan (p # ps) i pl =
     (case subtree_at plan p of
        None \<Rightarrow> None
      | Some op \<Rightarrow>
          init_plans est plan ps (Suc i)
            (pl(GetRelation i \<mapsto> JoinLeaf (GetRelation i) (est op))))"

text \<open>
  The part of \<open>Optimize\<close> that follows a successful extraction of at least two relations.
  \<open>EstimateCardinality\<close> of an operator is not among the sources: it is the parameter
  \<open>est\<close>.
\<close>

definition optimize_region ::
  "(LogicalOperator \<Rightarrow> size_t) \<Rightarrow> LogicalOperator \<Rightarrow> extraction \<Rightarrow> LogicalOperator option" where
  "optimize_region est plan ex =
     (case extract_filters plan (filter_operators ex) [] of
        None \<Rightarrow> None
      | Some (plan1, fexprs) \<Rightarrow>
     (case edge_pass (relation_mapping ex) 0 fexprs [] [] of
        None \<Rightarrow> None
      | Some (fis, g) \<Rightarrow>
     (case init_plans est plan1 (relations ex) 0 Map.empty of
        None \<Rightarrow> None
      | Some pl \<Rightarrow>
     (let n = length (relations ex) in
      case SolveJoinOrder n g \<lparr>plans = pl, pairs = 0\<rparr> of
        None \<Rightarrow> None
      | Some (g1, m1) \<Rightarrow>
     (let total_relation = GetRelationSet [0..<n] in
      case (case plans m1 total_relation of
              Some node \<Rightarrow> Some node
            | None \<Rightarrow>
                (case SolveJoinOrder n (GenerateCrossProducts n g1) m1 of
                   None \<Rightarrow> None
                 | Some (g2, m2) \<Rightarrow> plans m2 total_relation)) of
        None \<Rightarrow> None
      | Some node \<Rightarrow>
          map_option fst (RewritePlan fis (relations ex) (map Some fexprs) plan1 node))))))"

fun op_size :: "LogicalOperator \<Rightarrow> nat" where
  "op_size (LogicalOperator t cs es ti jt conds) = Suc (sum_list (map op_size cs))"

lemma op_size_children: "op_size op = Suc (sum_list (map op_size (children op)))"
  by (cases op) simp

lemma op_size_nth: "i < length (children op) \<Longrightarrow> op_size (children op ! i) < op_size op"
proof -
  assume "i < length (children op)"
  then have "children op ! i \<in> set (children op)" by simp
  then have "op_size (children op ! i) \<le> sum_list (map op_size (children op))"
    by (simp add: member_le_sum_list)
  then show ?thesis by (simp add: op_size_children [of op])
qed

lemma op_size_pos: "0 < op_size op"
  by (cases op) simp

lemma op_size_nth3:
  "i < length (children op) \<Longrightarrow> Suc (3 * op_size (children op ! i)) < 3 * op_size op"
  using op_size_nth [of i op] by arith

lemma op_size_sum3: "Suc (Suc (3 * sum_list (map op_size (children op)))) < 3 * op_size op"
  by (simp add: op_size_children [of op])

text \<open>
  \<open>Optimize\<close> and \<open>ExtractJoinRelations\<close> call each other: a nested \<open>Optimize\<close> runs on a child
  with an optimizer of its own.  \<open>ExtractJoinRelations inp cur op\<close> is the source function at
  the point where its loop has walked from \<open>input_op\<close> (at \<open>inp\<close>) down to \<open>op\<close> (at \<open>cur\<close>); it
  returns the flag, the operator with the optimized children put in, and what it has
  collected.
\<close>

function Optimize :: "(LogicalOperator \<Rightarrow> size_t) \<Rightarrow> LogicalOperator \<Rightarrow> LogicalOperator option"
  and ExtractJoinRelations ::
    "(LogicalOperator \<Rightarrow> size_t) \<Rightarrow> path \<Rightarrow> path \<Rightarrow> LogicalOperator \<Rightarrow> extraction \<Rightarrow>
     (bool \<times> LogicalOperator \<times> extraction) option"
  and optimize_children ::
    "(LogicalOperator \<Rightarrow> size_t) \<Rightarrow> LogicalOperator list \<Rightarrow> LogicalOperator list option"
where
  "Optimize est plan =
     (case ExtractJoinRelations est [] [] plan
             \<lparr>relations = [], relation_mapping = Map.empty, filter_operators = []\<rparr> of
        None \<Rightarrow> None
      | Some (ok, plan', ex) \<Rightarrow>
          if \<not> ok then ResolveJoinConditions plan'
          else if length (relations ex) \<le> 1 then ResolveJoinConditions plan'
          else optimize_region est plan' ex)"
| "ExtractJoinRelations est inp cur op ex =
     (if length (children op) = 1 \<and> op_type op \<noteq> SUBQUERY then
        (let ex1 = (if op_type op = FILTER then add_filter_operator cur ex else ex) in
         if op_type op = AGGREGATE_AND_GROUP_BY then
           (case Optimize est (children op ! 0) of
              None \<Rightarrow> None
            | Some c \<Rightarrow> Some (False, set_children op [c], ex1))
         else
           (case ExtractJoinRelations est inp (cur @ [0]) (children op ! 0) ex1 of
              None \<Rightarrow> None
            | Some (ok, c, ex2) \<Rightarrow> Some (ok, set_children op [c], ex2)))
      else if op_type op = UNION \<or> op_type op = EXCEPT \<or> op_type op = INTERSECT then
        (case optimize_children est (children op) of
           None \<Rightarrow> None
         | Some cs \<Rightarrow> Some (False, set_children op cs, ex))
      else if op_type op = JOIN \<and> join_type op \<noteq> INNER then
        (if length (children op) < 2 then None
         else case Optimize est (children op ! 0) of
           None \<Rightarrow> None
         | Some c0 \<Rightarrow>
             (case Optimize est (children op ! 1) of
                None \<Rightarrow> None
              | Some c1 \<Rightarrow>
                  (let op' = set_children op ((children op)[0 := c0, 1 := c1])
                   in Some (True, op', add_relation inp (GetTableReferences op' []) ex))))
      else
        (let ex1 = (if op_type op = JOIN then add_filter_operator cur ex else ex) in
         if op_type op = JOIN \<or> op_type op = CROSS_PRODUCT then
           (if length (children op) < 2 then None
            else case ExtractJoinRelations est (cur @ [0]) (cur @ [0]) (children op ! 0) ex1 of
              None \<Rightarrow> None
            | Some (False, c0, ex2) \<Rightarrow>
                Some (False, set_children op ((children op)[0 := c0]), ex2)
            | Some (True, c0, ex2) \<Rightarrow>
                (case ExtractJoinRelations est (cur @ [1]) (cur @ [1]) (children op ! 1) ex2 of
                   None \<Rightarrow> None
                 | Some (ok, c1, ex3) \<Rightarrow>
                     Some (ok, set_children op ((children op)[0 := c0, 1 := c1]), ex3)))
         else if op_type op = GET then
           Some (True, op, add_relation inp [table_index op] ex1)
         else if op_type op = SUBQUERY then
           (if length (children op) \<noteq> 1 then None
            else case Optimize est (children op ! 0) of
              None \<Rightarrow> None
            | Some c \<Rightarrow>
                Some (True, set_children op [c], add_relation inp [table_index op] ex1))
         else if op_type op = TABLE_FUNCTION then
           Some (True, op, add_relation inp [table_index op] ex1)
         else Some (False, op, ex1)))"
| "optimize_children est [] = Some []"
| "optimize_children est (c # cs) =
     (case Optimize est c of
        None \<Rightarrow> None
      | Some c' \<Rightarrow> map_option ((#) c') (optimize_children est cs))"
  by pat_completeness auto
termination
  by (relation "measure (\<lambda>x. case x of
          Inl (est, plan) \<Rightarrow> 3 * op_size plan + 1
        | Inr (Inl (est, inp, cur, op, ex)) \<Rightarrow> 3 * op_size op
        | Inr (Inr (est, cs)) \<Rightarrow> 3 * sum_list (map op_size cs) + 2)")
     (auto simp: op_size_sum3 op_size_pos intro!: op_size_nth op_size_nth3)

declare Optimize.simps [simp del] ExtractJoinRelations.simps [simp del]

section \<open>Predicates on plans and example inputs\<close>

text \<open>No operator of type \<open>JOIN\<close> in the plan holds a raw expression.\<close>

fun joins_resolved :: "LogicalOperator \<Rightarrow> bool" where
  "joins_resolved (LogicalOperator t cs es ti jt conds) =
     ((t \<noteq> JOIN \<or> es = []) \<and> list_all joins_resolved cs)"

text \<open>
  The state of the loop of \<open>ResolveJoinConditions\<close> keeps the operator type of the join, and
  the children of the join hold no raw expression on a join.
\<close>

definition top_ok :: "join_top \<Rightarrow> LogicalOperatorType \<Rightarrow> bool" where
  "top_ok jt t = (op_type (snd jt) = t \<and> list_all joins_resolved (children (snd jt)))"

text \<open>A table scan, a column of a table of the query itself, an estimate by table.\<close>

definition scan :: "nat \<Rightarrow> LogicalOperator" where
  "scan t = LogicalOperator GET [] [] t INNER []"

definition col :: "nat \<Rightarrow> Expression" where
  "col t = BoundColumnRef t 0"

fun est_table :: "LogicalOperator \<Rightarrow> size_t" where
  "est_table (LogicalOperator t cs es ti jt conds) =
     (if t = GET then (if ti = 0 then 100 else if ti = 1 then 10 else 1000) else 1)"

text \<open>Two relations joined by one predicate between relation 0 and relation 1.\<close>

definition fi_01 :: FilterInfo where
  "fi_01 = \<lparr>filter_index = 0, set_f = [0, Suc 0], left_set = [0], right_set = [Suc 0]\<rparr>"

definition pair_graph :: "FilterInfo \<Rightarrow> QueryGraph" where
  "pair_graph fi = [([0], [\<lparr>neighbor = [Suc 0], filters_n = [fi]\<rparr>]),
                    ([Suc 0], [\<lparr>neighbor = [0], filters_n = [fi]\<rparr>])]"

definition leaves_two :: "size_t \<Rightarrow> size_t \<Rightarrow> (RelationSet \<rightharpoonup> JoinNode)" where
  "leaves_two c0 c1 = [[0] \<mapsto> JoinLeaf [0] c0, [Suc 0] \<mapsto> JoinLeaf [Suc 0] c1]"

definition joined_two :: "FilterInfo \<Rightarrow> size_t \<Rightarrow> size_t \<Rightarrow> (RelationSet \<rightharpoonup> JoinNode)" where
  "joined_two fi c0 c1 =
     (leaves_two c0 c1)([0, Suc 0] \<mapsto>
        CreateJoinTree [0, Suc 0] \<lparr>neighbor = [Suc 0], filters_n = [fi]\<rparr>
          (JoinLeaf [0] c0) (JoinLeaf [Suc 0] c1))"

text \<open>An inner join that holds a raw comparison next to its join condition.\<close>

definition raw_inner_join :: LogicalOperator where
  "raw_inner_join =
     LogicalOperator JOIN [scan 0, scan 1] [Comparison COMPARE_LESSTHAN (col 1) (col 0)] 0 INNER
       [\<lparr>left_c = col 0, right_c = col 1, comparison = COMPARE_EQUAL\<rparr>]"

definition resolved_inner_join :: LogicalOperator where
  "resolved_inner_join =
     LogicalOperator JOIN [scan 0, scan 1] [] 0 INNER
       [\<lparr>left_c = col 0, right_c = col 1, comparison = COMPARE_EQUAL\<rparr>,
        \<lparr>left_c = col 0, right_c = col 1, comparison = COMPARE_GREATERTHAN\<rparr>]"

text \<open>A region of two scans under a projection, with a join predicate and a constant filter.\<close>

definition fi_const :: FilterInfo where
  "fi_const = \<lparr>filter_index = 1, set_f = [], left_set = [], right_set = []\<rparr>"

definition node_01 :: JoinNode where
  "node_01 = JoinNode [0, Suc 0] (Some \<lparr>neighbor = [Suc 0], filters_n = [fi_01]\<rparr>)
               (Some (JoinLeaf [0] 100)) (Some (JoinLeaf [Suc 0] 10)) 100 100"

definition region_plan :: LogicalOperator where
  "region_plan = LogicalOperator PROJECTION [LogicalCrossProduct [scan 0, scan 1]] [] 0 INNER []"

text \<open>
  An inner join at the root of the plan, over a left outer join that still holds its raw
  \<open>ON\<close> predicate and a scan.
\<close>

definition left_join :: LogicalOperator where
  "left_join =
     LogicalOperator JOIN [scan 0, scan 1] [Comparison COMPARE_EQUAL (col 0) (col 1)] 0 LEFT_OUTER []"

definition join_root_plan :: LogicalOperator where
  "join_root_plan =
     LogicalOperator JOIN [left_join, scan 2] [Comparison COMPARE_EQUAL (col 1) (col 2)] 0 INNER []"

definition join_root_cleared :: LogicalOperator where
  "join_root_cleared = LogicalOperator JOIN [left_join, scan 2] [] 0 INNER []"

definition node_join_root :: JoinNode where
  "node_join_root = JoinNode [0, Suc 0] (Some \<lparr>neighbor = [Suc 0], filters_n = [fi_01]\<rparr>)
        (Some (JoinLeaf [Suc 0] 1000)) (Some (JoinLeaf [0] 1)) 1000 1000"

text \<open>
  A comparison inside a correlated subquery: \<open>(c.x + outer.y) + a.z = c.w\<close>, with \<open>a\<close> the
  table 0, \<open>c\<close> the table 2 and \<open>outer.y\<close> a column reference at depth 1.
\<close>

definition poisoned_pred :: Expression where
  "poisoned_pred =
     Comparison COMPARE_EQUAL (OtherExpr [OtherExpr [col 2, BoundColumnRef 9 1], col 0]) (col 2)"

definition poisoned_plan :: LogicalOperator where
  "poisoned_plan =
     LogicalOperator PROJECTION
       [LogicalOperator FILTER [LogicalCrossProduct [scan 0, scan 2]] [poisoned_pred] 0 INNER []]
       [] 0 INNER []"

definition poisoned_cleared :: LogicalOperator where
  "poisoned_cleared =
     LogicalOperator PROJECTION
       [LogicalOperator FILTER [LogicalCrossProduct [scan 0, scan 2]] [] 0 INNER []]
       [] 0 INNER []"

definition ex_poisoned :: extraction where
  "ex_poisoned = \<lparr>relations = [[0, 0, 0], [0, 0, Suc 0]],
                   relation_mapping = [0 \<mapsto> 0, 2 \<mapsto> Suc 0], filter_operators = [[0]]\<rparr>"

definition node_poisoned :: JoinNode where
  "node_poisoned = JoinNode [0, Suc 0] (Some \<lparr>neighbor = [Suc 0], filters_n = [fi_01]\<rparr>)
        (Some (JoinLeaf [Suc 0] 1000)) (Some (JoinLeaf [0] 100)) 1000 1000"

definition poisoned_result :: LogicalOperator where
  "poisoned_result =
     LogicalOperator PROJECTION
       [LogicalOperator FILTER
          [LogicalJoin INNER [scan 2, scan 0]
             [\<lparr>left_c = col 2,
               right_c = OtherExpr [OtherExpr [col 2, BoundColumnRef 9 1], col 0],
               comparison = COMPARE_EQUAL\<rparr>]]
          [] 0 INNER []]
       [] 0 INNER []"

text \<open>
  All table indexes of the query itself (depth 0) that an expression mentions, and all table
  indexes under an operator.
\<close>

fun referenced_tables :: "Expression \<Rightarrow> nat set"
  and referenced_tables_list :: "Expression list \<Rightarrow> nat set" where
  "referenced_tables (BoundColumnRef ti depth) = (if depth = 0 then {ti} else {})"
| "referenced_tables BoundRef = {}"
| "referenced_tables (SubqueryExpr c es) = referenced_tables_list es"
| "referenced_tables (Comparison c l r) = referenced_tables l \<union> referenced_tables r"
| "referenced_tables (OperatorNot es) = referenced_tables_list es"
| "referenced_tables (OtherExpr es) = referenced_tables_list es"
| "referenced_tables_list [] = {}"
| "referenced_tables_list (e # es) = referenced_tables e \<union> referenced_tables_list es"

text \<open>Memos of the greedy pass after the budget has run out, with no edge in the graph.\<close>

definition memo_three :: memo where
  "memo_three =
     \<lparr>plans = [[0] \<mapsto> JoinLeaf [0] 5, [1] \<mapsto> JoinLeaf [1] 10, [2] \<mapsto> JoinLeaf [2] 1],
      pairs = 10000\<rparr>"

definition memo_desc :: memo where
  "memo_desc = \<lparr>plans = [[0] \<mapsto> JoinLeaf [0] 10, [1] \<mapsto> JoinLeaf [1] 5], pairs = 10000\<rparr>"

text \<open>
  An expression is poisoned when a column reference at depth above 0, a bound execution-time
  reference or a correlated subquery occurs anywhere inside it.
\<close>

fun is_poisoned :: "Expression \<Rightarrow> bool"
  and is_poisoned_list :: "Expression list \<Rightarrow> bool" where
  "is_poisoned (BoundColumnRef ti depth) = (depth > 0)"
| "is_poisoned BoundRef = True"
| "is_poisoned (SubqueryExpr c es) = (c \<or> is_poisoned_list es)"
| "is_poisoned (Comparison c l r) = (is_poisoned l \<or> is_poisoned r)"
| "is_poisoned (OperatorNot es) = is_poisoned_list es"
| "is_poisoned (OtherExpr es) = is_poisoned_list es"
| "is_poisoned_list [] = False"
| "is_poisoned_list (e # es) = (is_poisoned e \<or> is_poisoned_list es)"

section \<open>The predicates a plan holds\<close>

text \<open>
  A comparison may be stored as it was written or with its sides exchanged and its comparator
  flipped; both spellings stand for the same predicate, and \<open>key\<close> is the pair of them.
  \<open>held\<close> collects, with their multiplicities, the raw expressions and the join conditions
  of every operator of a plan; \<open>keys_of\<close> and \<open>held_rels\<close> do the same for the entries that
  are still present in \<open>filters\<close> and in \<open>extracted_relations\<close>; \<open>present\<close> lists the entries
  that have not been moved out.
\<close>

definition flip_expr :: "Expression \<Rightarrow> Expression" where
  "flip_expr e = (case e of Comparison c l r \<Rightarrow> Comparison (FlipComparisionExpression c) r l | _ \<Rightarrow> e)"

definition key :: "Expression \<Rightarrow> Expression set" where
  "key e = {e, flip_expr e}"

definition cond_expr :: "JoinCondition \<Rightarrow> Expression" where
  "cond_expr c = Comparison (comparison c) (left_c c) (right_c c)"

definition cond_keys :: "JoinCondition list \<Rightarrow> Expression set multiset" where
  "cond_keys conds = image_mset (\<lambda>c. key (cond_expr c)) (mset conds)"

fun held :: "LogicalOperator \<Rightarrow> Expression set multiset" where
  "held (LogicalOperator t cs es ti jt conds) =
     image_mset key (mset es) + cond_keys conds + sum_list (map held cs)"

definition held_rels :: "LogicalOperator option list \<Rightarrow> Expression set multiset" where
  "held_rels rs = sum_list (map (\<lambda>r. case r of None \<Rightarrow> {#} | Some op \<Rightarrow> held op) rs)"

definition keys_of :: "Expression option list \<Rightarrow> Expression set multiset" where
  "keys_of fs = sum_list (map (\<lambda>f. case f of None \<Rightarrow> {#} | Some e \<Rightarrow> {#key e#}) fs)"

definition present :: "'a option list \<Rightarrow> 'a list" where
  "present fs = concat (map (\<lambda>f. case f of None \<Rightarrow> [] | Some e \<Rightarrow> [e]) fs)"


section \<open>Graphs, memo invariants and join trees for the exact search\<close>

text \<open>
  The edges of a query graph as pairs of relation sets.  A graph is simple when every edge
  joins one relation below \<open>n\<close> to one relation below \<open>n\<close> and carries a filter, the shape of the
  edges that \<open>Optimize\<close> creates for a comparison between two relations; it is symmetric
  when every edge has its reverse, as \<open>Optimize\<close> creates them.
\<close>

definition edge_list :: "QueryGraph \<Rightarrow> (RelationSet \<times> RelationSet) list" where
  "edge_list g = concat (map (\<lambda>(f, ns). map (\<lambda>ni. (f, neighbor ni)) ns) g)"

definition adj :: "QueryGraph \<Rightarrow> nat \<Rightarrow> nat \<Rightarrow> bool" where
  "adj g a b = (([a], [b]) \<in> set (edge_list g))"



definition adjacent :: "QueryGraph \<Rightarrow> nat set \<Rightarrow> nat set \<Rightarrow> bool" where
  "adjacent g A B = (\<exists>a\<in>A. \<exists>b\<in>B. adj g a b)"

text \<open>
  A key of the memo is a sorted, duplicate-free, non-empty list.  A set of relations is
  connected when every cut of it is crossed by an edge.  \<open>cards_bounded\<close> bounds the
  cardinalities of the relations so that no cost of a plan over \<open>n\<close> relations wraps around
  in 64 bits; \<open>mc\<close> is the largest cardinality of a set.  \<open>memo_inv\<close> is what the exact search
  keeps true of the memo on a simple graph: the leaves are there, and every entry is stored
  under a connected key, with the cardinality and a cost bound that \<open>CreateJoinTree\<close> gives
  to joins on filters.
\<close>

definition canon :: "nat list \<Rightarrow> bool" where
  "canon K = (sorted K \<and> distinct K \<and> K \<noteq> [])"



definition mc :: "(nat \<Rightarrow> size_t) \<Rightarrow> nat list \<Rightarrow> size_t" where
  "mc cardf K = Max (cardf ` set K)"




definition Good :: "(nat \<Rightarrow> size_t) \<Rightarrow> (RelationSet \<rightharpoonup> JoinNode) \<Rightarrow> RelationSet \<Rightarrow> RelationSet \<Rightarrow> bool" where
  "Good cardf P L R =
     (\<forall>pl pr. P L = Some pl \<and> P R = Some pr \<longrightarrow>
        (\<exists>p. P (Union_rs L R) = Some p \<and>
             unat (cost p) \<le> unat (mc cardf (Union_rs L R)) + unat (cost pl) + unat (cost pr)))"

definition below :: "RelationSet \<Rightarrow> nat set" where
  "below l = {..<hd l} \<union> set l"

definition Closed :: "QueryGraph \<Rightarrow> (nat \<Rightarrow> size_t) \<Rightarrow> (RelationSet \<rightharpoonup> JoinNode) \<Rightarrow> RelationSet \<Rightarrow> bool" where
  "Closed g cardf P A =
     (\<forall>S. canon S \<and> set S \<inter> below A = {} \<and> adjacent g (set A) (set S) \<longrightarrow> Good cardf P A S)"











text \<open>
  The memo that \<open>Optimize\<close> hands to the search holds one leaf per relation
  (\<open>init_plans\<close>); \<open>leaf_plans cardf n\<close> is that memo for the cardinalities \<open>cardf\<close>.  A binary
  join tree over relations is a \<open>join_shape\<close>; \<open>build_tree\<close> is the JoinNode that
  \<open>CreateJoinTree\<close> builds along it, each join with the connection of its two sides in the
  graph, or as a cross product (an info without filters) when there is none.  In a
  \<open>connected_tree\<close> every join has a connection.
\<close>

fun leaf_plans :: "(nat \<Rightarrow> size_t) \<Rightarrow> nat \<Rightarrow> (RelationSet \<rightharpoonup> JoinNode)" where
  "leaf_plans cardf 0 = Map.empty"
| "leaf_plans cardf (Suc k) = (leaf_plans cardf k)(GetRelation k \<mapsto> JoinLeaf (GetRelation k) (cardf k))"



















section \<open>The exact search on two joined relations\<close>

lemmas graph_simps = GetNeighbors_def GetConnection_def edges_from_def IsSubset_def disjoint_rs_def

lemma pair_graph_neighbors:
  "GetNeighbors (pair_graph fi) [Suc 0] [Suc 0, 0] = []"
  "GetNeighbors (pair_graph fi) [Suc 0] [0] = []"
  "GetNeighbors (pair_graph fi) [0] [0] = [Suc 0]"
  "GetNeighbors (pair_graph fi) [0] [] = [Suc 0]"
  "GetNeighbors (pair_graph fi) [0, Suc 0] [Suc 0, 0] = []"
  "GetNeighbors (pair_graph fi) [0, Suc 0] [Suc 0] = [0]"
  "GetNeighbors (pair_graph fi) [0, Suc 0] [0, Suc 0] = []"
  by (simp_all add: pair_graph_def graph_simps)

lemma pair_graph_connection:
  "GetConnection (pair_graph fi) [0] [Suc 0] = Some \<lparr>neighbor = [Suc 0], filters_n = [fi]\<rparr>"
  by (simp add: pair_graph_def graph_simps)

lemma emit_csg_1: "EmitCSG (pair_graph fi) [Suc 0] m = Some (True, m)"
  by (simp add: EmitCSG_def UpdateExclusionSet_def Let_def pair_graph_neighbors)

lemma csg_rec_1: "EnumerateCSGRecursive (pair_graph fi) [Suc 0] [0] m = Some (True, m)"
  by (simp add: EnumerateCSGRecursive.simps Let_def pair_graph_neighbors)

lemma cmp_rec_0: "EnumerateCmpRecursive (pair_graph fi) [0] [Suc 0] [0] m = Some (True, m)"
  by (simp add: EnumerateCmpRecursive.simps Let_def pair_graph_neighbors)

lemma try_emit_01:
  "TryEmitPair [0] [Suc 0] \<lparr>neighbor = [Suc 0], filters_n = [fi]\<rparr>
     \<lparr>plans = leaves_two c0 c1, pairs = 0\<rparr>
   = Some (True, \<lparr>plans = joined_two fi c0 c1, pairs = Suc 0\<rparr>)"
  by (simp add: TryEmitPair_def EmitPair_def Union_rs_def leaves_two_def joined_two_def Let_def)

lemma try_emit_01_budget:
  "TryEmitPair [0] [Suc 0] \<lparr>neighbor = [Suc 0], filters_n = [fi]\<rparr>
     \<lparr>plans = leaves_two c0 c1, pairs = 9999\<rparr>
   = Some (False, \<lparr>plans = leaves_two c0 c1, pairs = 10000\<rparr>)"
  by (simp add: TryEmitPair_def Let_def)

lemma emit_csg_0:
  "EmitCSG (pair_graph fi) [0] \<lparr>plans = leaves_two c0 c1, pairs = 0\<rparr>
   = Some (True, \<lparr>plans = joined_two fi c0 c1, pairs = Suc 0\<rparr>)"
  by (simp add: EmitCSG_def UpdateExclusionSet_def Let_def pair_graph_neighbors
        pair_graph_connection GetRelation_def try_emit_01 cmp_rec_0)

lemma emit_csg_0_budget:
  "EmitCSG (pair_graph fi) [0] \<lparr>plans = leaves_two c0 c1, pairs = 9999\<rparr>
   = Some (False, \<lparr>plans = leaves_two c0 c1, pairs = 10000\<rparr>)"
  by (simp add: EmitCSG_def UpdateExclusionSet_def Let_def pair_graph_neighbors
        pair_graph_connection GetRelation_def try_emit_01_budget)

lemma emit_csg_01: "EmitCSG (pair_graph fi) [0, Suc 0] m = Some (True, m)"
  by (simp add: EmitCSG_def UpdateExclusionSet_def Let_def pair_graph_neighbors)

lemma csg_rec_01: "EnumerateCSGRecursive (pair_graph fi) [0, Suc 0] [0, Suc 0] m = Some (True, m)"
  by (simp add: EnumerateCSGRecursive.simps Let_def pair_graph_neighbors)

lemma joined_two_has: "joined_two fi c0 c1 [0, Suc 0] \<noteq> None"
  by (simp add: joined_two_def)

lemma csg_rec_01_grown:
  "EnumerateCSGRecursive (pair_graph fi) [0, Suc 0] [Suc 0]
     \<lparr>plans = joined_two fi c0 c1, pairs = Suc 0\<rparr>
   = Some (True, \<lparr>plans = joined_two fi c0 c1, pairs = Suc 0\<rparr>)"
  by (simp add: EnumerateCSGRecursive.simps Let_def csg_recurse.simps pair_graph_neighbors
       GetRelation_def Union_rs_def emit_csg_01 csg_rec_01 joined_two_has)

lemma csg_rec_0:
  "EnumerateCSGRecursive (pair_graph fi) [0] [] \<lparr>plans = joined_two fi c0 c1, pairs = Suc 0\<rparr>
   = Some (True, \<lparr>plans = joined_two fi c0 c1, pairs = Suc 0\<rparr>)"
  by (simp add: EnumerateCSGRecursive.simps Let_def csg_recurse.simps pair_graph_neighbors
       GetRelation_def Union_rs_def emit_csg_01 csg_rec_01_grown joined_two_has)

lemma exact_two:
  "SolveJoinOrderExactly (Suc (Suc 0)) (pair_graph fi) \<lparr>plans = leaves_two c0 c1, pairs = 0\<rparr>
   = Some (True, \<lparr>plans = joined_two fi c0 c1, pairs = Suc 0\<rparr>)"
  by (simp add: SolveJoinOrderExactly_def GetRelation_def emit_csg_1 csg_rec_1 emit_csg_0 csg_rec_0)

lemma exact_two_budget:
  "SolveJoinOrderExactly (Suc (Suc 0)) (pair_graph fi) \<lparr>plans = leaves_two c0 c1, pairs = 9999\<rparr>
   = Some (False, \<lparr>plans = leaves_two c0 c1, pairs = 10000\<rparr>)"
  by (simp add: SolveJoinOrderExactly_def GetRelation_def emit_csg_1 csg_rec_1 emit_csg_0_budget)

lemma solve_two:
  "SolveJoinOrder (Suc (Suc 0)) (pair_graph fi) \<lparr>plans = leaves_two c0 c1, pairs = 0\<rparr>
   = Some (pair_graph fi, \<lparr>plans = joined_two fi c0 c1, pairs = Suc 0\<rparr>)"
  by (simp add: SolveJoinOrder_def exact_two)

section \<open>Properties of CreateJoinTree\<close>

lemma CreateJoinTree_ge:
  "\<not> cardinality l < cardinality r \<Longrightarrow>
   CreateJoinTree s i l r =
     JoinNode s (Some i) (Some l) (Some r)
       (if filters_n i = [] then cardinality l * cardinality r else max (cardinality l) (cardinality r))
       ((if filters_n i = [] then cardinality l * cardinality r else max (cardinality l) (cardinality r))
         + cost l + cost r)"
  by (subst CreateJoinTree.simps) (simp add: Let_def)

lemma CreateJoinTree_lt:
  "cardinality l < cardinality r \<Longrightarrow> CreateJoinTree s i l r = CreateJoinTree s i r l"
  by (subst CreateJoinTree.simps) simp


text \<open>
  C5: for all nodes \<open>L\<close>, \<open>R\<close> and every edge info, the node that \<open>CreateJoinTree\<close> returns has
  as right child the input of smaller cardinality (the inputs are exchanged exactly when
  \<open>L.cardinality < R.cardinality\<close>), its cardinality is the product of the two input
  cardinalities (in \<open>size_t\<close> arithmetic) when the info carries no filter and their maximum
  otherwise, and its cost is that cardinality plus the costs of both inputs.
\<close>

theorem CreateJoinTree_children_cardinality_cost:
  "CreateJoinTree s i L R =
     JoinNode s (Some i)
       (Some (if cardinality L < cardinality R then R else L))
       (Some (if cardinality L < cardinality R then L else R))
       (if filters_n i = [] then cardinality L * cardinality R
        else max (cardinality L) (cardinality R))
       ((if filters_n i = [] then cardinality L * cardinality R
         else max (cardinality L) (cardinality R)) + cost L + cost R)
   \<and> cardinality (if cardinality L < cardinality R then L else R)
       \<le> cardinality (if cardinality L < cardinality R then R else L)"
proof (cases "cardinality L < cardinality R")
  case True
  then have swap: "\<not> cardinality R < cardinality L" by simp
  have "CreateJoinTree s i L R = CreateJoinTree s i R L"
    using True by (rule CreateJoinTree_lt)
  also note CreateJoinTree_ge [OF swap]
  finally show ?thesis
    using True by (simp add: mult.commute max.commute add.commute add.left_commute)
next
  case False
  then show ?thesis
    using CreateJoinTree_ge [OF False, of s i] by simp
qed

section \<open>The pair budget\<close>

lemma EmitPair_pairs: "EmitPair l r i m = Some (n, m') \<Longrightarrow> pairs m' = pairs m"
  by (auto simp: EmitPair_def Let_def split: option.splits if_splits)

text \<open>
  C6: every call of \<open>TryEmitPair\<close> that returns has incremented \<open>pairs\<close>; once \<open>pairs\<close> has
  reached 10000 a call returns false and leaves the memo \<open>plans\<close> as it was; and
  \<open>SolveJoinOrder\<close> runs \<open>SolveJoinOrderApproximately\<close> (on the state the exact search left)
  when \<open>SolveJoinOrderExactly\<close> returned false, and does not run it when it returned true.
\<close>

theorem TryEmitPair_budget:
  "(\<forall>b m'. TryEmitPair l r i m = Some (b, m') \<longrightarrow> pairs m' = Suc (pairs m))
   \<and> (10000 \<le> pairs m \<longrightarrow> TryEmitPair l r i m = Some (False, m\<lparr>pairs := Suc (pairs m)\<rparr>))
   \<and> (\<forall>m'. SolveJoinOrderExactly n g m = Some (False, m') \<longrightarrow>
         SolveJoinOrder n g m = SolveJoinOrderApproximately n g m')
   \<and> (\<forall>m'. SolveJoinOrderExactly n g m = Some (True, m') \<longrightarrow>
         SolveJoinOrder n g m = Some (g, m'))"
proof (intro conjI allI impI)
  fix b m' assume "TryEmitPair l r i m = Some (b, m')"
  then show "pairs m' = Suc (pairs m)"
    by (auto simp: TryEmitPair_def Let_def split: if_splits option.splits dest: EmitPair_pairs)
next
  assume "10000 \<le> pairs m"
  then show "TryEmitPair l r i m = Some (False, m\<lparr>pairs := Suc (pairs m)\<rparr>)"
    by (simp add: TryEmitPair_def Let_def)
next
  fix m' assume "SolveJoinOrderExactly n g m = Some (False, m')"
  then show "SolveJoinOrder n g m = SolveJoinOrderApproximately n g m'"
    by (simp add: SolveJoinOrder_def)
next
  fix m' assume "SolveJoinOrderExactly n g m = Some (True, m')"
  then show "SolveJoinOrder n g m = Some (g, m')"
    by (simp add: SolveJoinOrder_def)
qed

theorem TryEmitPair_budget_witness:
  "TryEmitPair [0] [Suc 0] \<lparr>neighbor = [Suc 0], filters_n = [fi_01]\<rparr>
       \<lparr>plans = leaves_two 100 10, pairs = 0\<rparr>
     = Some (True, \<lparr>plans = joined_two fi_01 100 10, pairs = Suc 0\<rparr>)
   \<and> pairs \<lparr>plans = joined_two fi_01 100 10, pairs = Suc 0\<rparr>
       = Suc (pairs \<lparr>plans = leaves_two 100 10, pairs = 0\<rparr>)
   \<and> TryEmitPair [0] [Suc 0] \<lparr>neighbor = [Suc 0], filters_n = [fi_01]\<rparr>
         \<lparr>plans = leaves_two 100 10, pairs = 10000\<rparr>
       = Some (False, \<lparr>plans = leaves_two 100 10, pairs = 10001\<rparr>)
   \<and> SolveJoinOrderExactly 2 (pair_graph fi_01) \<lparr>plans = leaves_two 100 10, pairs = 9999\<rparr>
       = Some (False, \<lparr>plans = leaves_two 100 10, pairs = 10000\<rparr>)
   \<and> SolveJoinOrder 2 (pair_graph fi_01) \<lparr>plans = leaves_two 100 10, pairs = 9999\<rparr>
       = SolveJoinOrderApproximately 2 (pair_graph fi_01) \<lparr>plans = leaves_two 100 10, pairs = 10000\<rparr>
   \<and> SolveJoinOrderExactly 2 (pair_graph fi_01) \<lparr>plans = leaves_two 100 10, pairs = 0\<rparr>
       = Some (True, \<lparr>plans = joined_two fi_01 100 10, pairs = Suc 0\<rparr>)
   \<and> SolveJoinOrder 2 (pair_graph fi_01) \<lparr>plans = leaves_two 100 10, pairs = 0\<rparr>
       = Some (pair_graph fi_01, \<lparr>plans = joined_two fi_01 100 10, pairs = Suc 0\<rparr>)"
proof -
  let ?i = "\<lparr>neighbor = [Suc 0], filters_n = [fi_01]\<rparr>"
  let ?m0 = "\<lparr>plans = leaves_two 100 10, pairs = 0\<rparr>"
  let ?m1 = "\<lparr>plans = joined_two fi_01 100 10, pairs = Suc 0\<rparr>"
  let ?mb = "\<lparr>plans = leaves_two 100 10, pairs = 9999\<rparr>"
  let ?mc = "\<lparr>plans = leaves_two 100 10, pairs = 10000\<rparr>"
  have e0: "TryEmitPair [0] [Suc 0] ?i ?m0 = Some (True, ?m1)" by (rule try_emit_01)
  have x0: "SolveJoinOrderExactly 2 (pair_graph fi_01) ?m0 = Some (True, ?m1)"
    using exact_two [of fi_01 100 10] by (simp add: numeral_2_eq_2)
  have xb: "SolveJoinOrderExactly 2 (pair_graph fi_01) ?mb = Some (False, ?mc)"
    using exact_two_budget [of fi_01 100 10] by (simp add: numeral_2_eq_2)
  have a: "pairs ?m1 = Suc (pairs ?m0)"
    using TryEmitPair_budget [of "[0]" "[Suc 0]" ?i ?m0] e0 by blast
  have "10000 \<le> pairs ?mc" by simp
  then have "TryEmitPair [0] [Suc 0] ?i ?mc = Some (False, ?mc\<lparr>pairs := Suc (pairs ?mc)\<rparr>)"
    using TryEmitPair_budget [of "[0]" "[Suc 0]" ?i ?mc] by blast
  then have b: "TryEmitPair [0] [Suc 0] ?i ?mc
      = Some (False, \<lparr>plans = leaves_two 100 10, pairs = 10001\<rparr>)"
    by simp
  have c: "SolveJoinOrder 2 (pair_graph fi_01) ?mb
      = SolveJoinOrderApproximately 2 (pair_graph fi_01) ?mc"
    using TryEmitPair_budget [of _ _ _ ?mb 2 "pair_graph fi_01"] xb by blast
  have d: "SolveJoinOrder 2 (pair_graph fi_01) ?m0 = Some (pair_graph fi_01, ?m1)"
    using TryEmitPair_budget [of _ _ _ ?m0 2 "pair_graph fi_01"] x0 by blast
  show ?thesis using e0 a b xb c x0 d by simp
qed

section \<open>The join condition resolver\<close>


lemma joins_resolved_sel:
  "joins_resolved op =
     ((op_type op \<noteq> JOIN \<or> expressions op = []) \<and> list_all joins_resolved (children op))"
  by (cases op) simp

lemma PushFilter_resolved: "joins_resolved node \<Longrightarrow> joins_resolved (PushFilter node e)"
  by (cases node) (auto simp: PushFilter_def LogicalFilter_def set_expressions_def)

lemma list_update_resolved:
  "list_all joins_resolved cs \<Longrightarrow> joins_resolved c \<Longrightarrow> list_all joins_resolved (cs[i := c])"
  by (auto simp: list_all_iff dest!: subsetD[OF set_update_subset_insert])



lemma top_ok_push_child:
  assumes "top_ok jt t" "k < length (children (snd jt))"
  shows "top_ok (fst jt, set_children (snd jt)
           ((children (snd jt))[k := PushFilter (children (snd jt) ! k) e])) t"
proof -
  have "joins_resolved (children (snd jt) ! k)"
    using assms by (simp add: top_ok_def list_all_length)
  then have "joins_resolved (PushFilter (children (snd jt) ! k) e)"
    by (rule PushFilter_resolved)
  then show ?thesis
    using assms(1) by (simp add: top_ok_def set_children_def list_update_resolved)
qed

lemma top_ok_conditions: "top_ok jt t \<Longrightarrow> top_ok (fst jt, set_conditions (snd jt) cs) t"
  by (simp add: top_ok_def set_conditions_def)

lemma top_ok_push_top: "top_ok jt t \<Longrightarrow> top_ok (push_top jt e) t"
  by (simp add: top_ok_def push_top_def split: option.splits)

lemma CreateJoinCondition_top_ok:
  "CreateJoinCondition jt e lb rb = Some jt' \<Longrightarrow> top_ok jt t \<Longrightarrow> top_ok jt' t"
proof (induction jt e lb rb arbitrary: jt' rule: CreateJoinCondition.induct)
  case (1 jt expr lb rb)
  from "1.prems"(1) obtain total_side where ts: "GetJoinSide expr lb rb = Some total_side"
    by (subst (asm) CreateJoinCondition.simps) (auto split: option.splits)
  show ?case
  proof (cases "total_side \<noteq> BOTH")
    case True
    with "1.prems" ts show ?thesis
      by (subst (asm) CreateJoinCondition.simps)
         (auto simp: Let_def top_ok_push_child split: if_splits)
  next
    case False
    then have both: "total_side = BOTH" by simp
    show ?thesis
    proof (cases expr)
      case (Comparison c l r)
      with "1.prems" ts both show ?thesis
        by (subst (asm) CreateJoinCondition.simps)
           (auto simp: top_ok_conditions top_ok_push_top split: option.splits if_splits)
    next
      case (OperatorNot es)
      show ?thesis
      proof (cases es)
        case Nil
        with "1.prems" ts both OperatorNot show ?thesis
          by (subst (asm) CreateJoinCondition.simps) simp
      next
        case (Cons e1 rest)
        show ?thesis
        proof (cases rest)
          case (Cons e2 rest2)
          with "1.prems" ts both OperatorNot \<open>es = e1 # rest\<close> show ?thesis
            by (subst (asm) CreateJoinCondition.simps) (simp split: Expression.splits)
        next
          case Nil
          show ?thesis
          proof (cases "\<exists>c l r. e1 = Comparison c l r \<and> order_comparator c")
            case True
            then obtain c l r where e1: "e1 = Comparison c l r" "order_comparator c" by blast
            have rec: "CreateJoinCondition jt (Comparison (NegateComparisionExpression c) l r) lb rb = Some jt'"
              using "1.prems"(1) ts both OperatorNot \<open>es = e1 # rest\<close> Nil e1
              by (subst (asm) CreateJoinCondition.simps) simp
            show ?thesis
              using "1.IH"[OF ts _ OperatorNot _ _ _ _ rec "1.prems"(2)]
                both \<open>es = e1 # rest\<close> Nil e1 by simp
          next
            case False
            with "1.prems" ts both OperatorNot \<open>es = e1 # rest\<close> Nil show ?thesis
              by (subst (asm) CreateJoinCondition.simps)
                 (auto simp: top_ok_push_top split: Expression.splits if_splits)
          qed
        qed
      qed
    qed (use "1.prems" ts both in \<open>subst (asm) CreateJoinCondition.simps,
           auto simp: top_ok_push_top\<close>)+
  qed
qed


lemma resolve_expressions_top_ok:
  "resolve_expressions jt es lb rb = Some jt' \<Longrightarrow> top_ok jt t \<Longrightarrow> top_ok jt' t"
proof (induction es arbitrary: jt)
  case Nil
  then show ?case by simp
next
  case (Cons e es)
  then show ?case
    by (auto split: option.splits dest: CreateJoinCondition_top_ok)
qed

lemma close_top_resolved: "top_ok jt t \<Longrightarrow> joins_resolved (close_top jt)"
  by (auto simp: top_ok_def close_top_def LogicalFilter_def set_expressions_def
        joins_resolved_sel [of "snd jt"] split: option.splits)

lemma resolve_join_resolved:
  assumes "resolve_join op = Some op'" "list_all joins_resolved (children op)"
  shows "joins_resolved op'"
proof (cases "op_type op = JOIN \<and> length (expressions op) > 0")
  case True
  with assms(1) obtain jt' where
    r: "resolve_expressions (None, op) (expressions op)
          (GetTableReferences (children op ! 0) []) (GetTableReferences (children op ! 1) []) = Some jt'"
    and op': "op' = close_top jt'"
    by (auto simp: resolve_join_def Let_def split: if_splits)
  have "top_ok (None, op) (op_type op)" using assms(2) by (simp add: top_ok_def)
  from resolve_expressions_top_ok [OF r this] show ?thesis
    unfolding op' by (rule close_top_resolved)
next
  case False
  with assms(1) have "op' = op" by (auto simp: resolve_join_def)
  with False assms(2) show ?thesis by (auto simp: joins_resolved_sel [of op])
qed

lemma ResolveJoinConditions_resolved_aux:
  "(\<forall>op'. ResolveJoinConditions op = Some op' \<longrightarrow> joins_resolved op')"
  "(\<forall>cs'. resolve_children cs = Some cs' \<longrightarrow> list_all joins_resolved cs')"
proof (induction op and cs rule: ResolveJoinConditions_resolve_children.induct)
  case (1 t cs es ti jt conds)
  show ?case
  proof (intro allI impI)
    fix op' assume a: "ResolveJoinConditions (LogicalOperator t cs es ti jt conds) = Some op'"
    then obtain cs' where cs': "resolve_children cs = Some cs'"
      and rj: "resolve_join (LogicalOperator t cs' es ti jt conds) = Some op'"
      by (auto split: option.splits)
    from 1 cs' have "list_all joins_resolved cs'" by simp
    then show "joins_resolved op'"
      using resolve_join_resolved [OF rj] by simp
  qed
next
  case 2
  show ?case by simp
next
  case (3 c cs)
  then show ?case by (auto split: option.splits)
qed

text \<open>
  C10: \<open>ResolveJoinConditions\<close> handles every operator of type \<open>JOIN\<close>, whatever its join type
  (an inner join that received raw comparison filters from the residual pushdown as well as a
  non-inner join): in the plan it returns, every operator of type \<open>JOIN\<close> has an empty list
  of raw expressions.
\<close>

theorem ResolveJoinConditions_resolved:
  "ResolveJoinConditions op = Some op' \<Longrightarrow> joins_resolved op'"
  using ResolveJoinConditions_resolved_aux(1) by blast


lemma resolve_raw_inner_join: "ResolveJoinConditions raw_inner_join = Some resolved_inner_join"
  by (simp add: raw_inner_join_def resolved_inner_join_def scan_def col_def resolve_join_def
        CreateJoinCondition.simps CombineJoinSide_def close_top_def set_conditions_def
        set_expressions_def)

theorem ResolveJoinConditions_resolved_witness:
  "ResolveJoinConditions raw_inner_join = Some resolved_inner_join
   \<and> join_type raw_inner_join = INNER \<and> expressions raw_inner_join \<noteq> []
   \<and> joins_resolved resolved_inner_join"
  using ResolveJoinConditions_resolved [OF resolve_raw_inner_join] resolve_raw_inner_join
  by (simp add: raw_inner_join_def)

section \<open>The rewritten plan holds every filter\<close>

lemma final_pushdown_all_moved:
  "(\<forall>j < i. j < length fs \<longrightarrow> fs ! j = None) \<Longrightarrow>
   length (snd (final_pushdown i fs jt)) = length fs \<and>
   list_all (\<lambda>f. f = None) (snd (final_pushdown i fs jt))"
proof (induction i fs jt rule: final_pushdown.induct)
  case (1 i fs join_tree)
  show ?case
  proof (cases "i < length fs")
    case False
    with "1.prems" show ?thesis
      by (subst final_pushdown.simps, subst (2) final_pushdown.simps)
         (auto simp: list_all_length)
  next
    case True
    show ?thesis
    proof (cases "fs ! i")
      case None
      have "\<forall>j<Suc i. j < length fs \<longrightarrow> fs ! j = None"
        using "1.prems" None by (auto simp: less_Suc_eq)
      from "1.IH"(1) [OF True None this] show ?thesis
        using True None by (subst final_pushdown.simps, subst (2) final_pushdown.simps) simp
    next
      case (Some e)
      have "\<forall>j<Suc i. j < length (fs[i := None]) \<longrightarrow> fs[i := None] ! j = None"
        using "1.prems" by (auto simp: less_Suc_eq nth_list_update)
      from "1.IH"(2) [OF True Some this] show ?thesis
        using True Some by (subst final_pushdown.simps, subst (2) final_pushdown.simps) simp
    qed
  qed
qed

lemma make_conditions_length:
  "make_conditions lf rf fis fs conds = Some (conds', fs') \<Longrightarrow> length fs' = length fs"
  by (induction lf rf fis fs conds rule: make_conditions.induct)
     (auto simp: Let_def split: if_splits option.splits Expression.splits)

lemma pushdown_length:
  "pushdown rel fis op fs = Some (op', fs') \<Longrightarrow> length fs' = length fs"
  by (induction rel fis op fs arbitrary: op' rule: pushdown.induct)
     (auto split: if_splits option.splits)

lemma GenerateJoins_node_elim:
  assumes "GenerateJoins fis (JoinNode s i (Some l) (Some r) c k) st = Some (res, st')"
  obtains lf lo st1 rf ro st2 ninfo op fs op' fs' where
    "GenerateJoins fis l st = Some ((lf, lo), st1)"
    "GenerateJoins fis r st1 = Some ((rf, ro), st2)"
    "i = Some ninfo"
    "(filters_n ninfo = [] \<and> op = LogicalCrossProduct [lo, ro] \<and> fs = filters st2) \<or>
     (filters_n ninfo \<noteq> [] \<and>
      (\<exists>conds. make_conditions lf rf (filters_n ninfo) (filters st2) [] = Some (conds, fs) \<and>
         op = LogicalJoin INNER [lo, ro] conds))"
    "pushdown (Union_rs lf rf) fis op fs = Some (op', fs')"
    "res = (Union_rs lf rf, op')" "st' = st2\<lparr>filters := fs'\<rparr>"
proof -
  obtain lf lo st1 where 1: "GenerateJoins fis l st = Some ((lf, lo), st1)"
    using assms by (cases "GenerateJoins fis l st") auto
  obtain rf ro st2 where 2: "GenerateJoins fis r st1 = Some ((rf, ro), st2)"
    using assms 1 by (cases "GenerateJoins fis r st1") auto
  obtain ninfo where 3: "i = Some ninfo"
    using assms 1 2 by (cases i) auto
  define mk where "mk = (if length (filters_n ninfo) = 0
                           then Some (LogicalCrossProduct [lo, ro], filters st2)
                           else map_option (\<lambda>(conds, fs). (LogicalJoin INNER [lo, ro] conds, fs))
                                  (make_conditions lf rf (filters_n ninfo) (filters st2) []))"
  have eq: "(case mk of None \<Rightarrow> None
             | Some (result_operator, fs) \<Rightarrow>
                 map_option (\<lambda>(op', fs'). ((Union_rs lf rf, op'), st2\<lparr>filters := fs'\<rparr>))
                   (pushdown (Union_rs lf rf) fis result_operator fs)) = Some (res, st')"
    using assms 1 2 3 unfolding mk_def by simp
  then obtain op fs where 4: "mk = Some (op, fs)"
    by (cases mk) auto
  with eq obtain op' fs' where 5: "pushdown (Union_rs lf rf) fis op fs = Some (op', fs')"
    and 6: "res = (Union_rs lf rf, op')" "st' = st2\<lparr>filters := fs'\<rparr>"
    by (cases "pushdown (Union_rs lf rf) fis op fs") auto
  have 7: "(filters_n ninfo = [] \<and> op = LogicalCrossProduct [lo, ro] \<and> fs = filters st2) \<or>
     (filters_n ninfo \<noteq> [] \<and>
      (\<exists>conds. make_conditions lf rf (filters_n ninfo) (filters st2) [] = Some (conds, fs) \<and>
         op = LogicalJoin INNER [lo, ro] conds))"
    using 4 unfolding mk_def by (auto split: if_splits)
  show ?thesis using that [OF 1 2 3 7 5 6] .
qed

lemma GenerateJoins_leaf_elim:
  assumes "GenerateJoins fis (JoinNode s i l r c k) st = Some (res, st')"
    and "l = None \<or> r = None"
  obtains op op' fs' where
    "length s = 1" "s ! 0 < length (extracted_relations st)"
    "extracted_relations st ! (s ! 0) = Some op"
    "pushdown s fis op (filters st) = Some (op', fs')"
    "res = (s, op')"
    "st' = st\<lparr>filters := fs', extracted_relations := (extracted_relations st)[s ! 0 := None]\<rparr>"
proof -
  have eq: "(if length s \<noteq> 1 then None
      else if s ! 0 \<ge> length (extracted_relations st) then None
      else case extracted_relations st ! (s ! 0) of
        None \<Rightarrow> None
      | Some result_operator \<Rightarrow>
          map_option (\<lambda>(op', fs').
              ((s, op'), st\<lparr>filters := fs',
                            extracted_relations := (extracted_relations st)[s ! 0 := None]\<rparr>))
            (pushdown s fis result_operator (filters st))) = Some (res, st')"
    using assms by (cases l; cases r) auto
  then have a: "length s = 1" "s ! 0 < length (extracted_relations st)"
    by (auto split: if_splits)
  with eq obtain op where b: "extracted_relations st ! (s ! 0) = Some op"
    by (cases "extracted_relations st ! (s ! 0)") auto
  with eq a obtain op' fs' where c: "pushdown s fis op (filters st) = Some (op', fs')"
    "res = (s, op')"
    "st' = st\<lparr>filters := fs', extracted_relations := (extracted_relations st)[s ! 0 := None]\<rparr>"
    by (cases "pushdown s fis op (filters st)") auto
  show ?thesis using that [OF a b c] .
qed

lemma GenerateJoins_length:
  "GenerateJoins fis node st = Some (res, st') \<Longrightarrow> length (filters st') = length (filters st)"
proof (induction fis node st arbitrary: res st' rule: GenerateJoins.induct)
  case (1 fis s i l r c k st)
  from "1.prems" show ?case
  proof (rule GenerateJoins_node_elim)
    fix lf lo st1 rf ro st2 ninfo op fs op' fs'
    assume a: "GenerateJoins fis l st = Some ((lf, lo), st1)"
      "GenerateJoins fis r st1 = Some ((rf, ro), st2)"
      "(filters_n ninfo = [] \<and> op = LogicalCrossProduct [lo, ro] \<and> fs = filters st2) \<or>
       (filters_n ninfo \<noteq> [] \<and>
        (\<exists>conds. make_conditions lf rf (filters_n ninfo) (filters st2) [] = Some (conds, fs) \<and>
           op = LogicalJoin INNER [lo, ro] conds))"
      "pushdown (Union_rs lf rf) fis op fs = Some (op', fs')"
      "st' = st2\<lparr>filters := fs'\<rparr>"
    have l1: "length (filters st1) = length (filters st)" using "1.IH"(1) [OF a(1)] .
    have l2: "length (filters st2) = length (filters st1)"
      using "1.IH"(2) [OF a(1) _ _ a(2)] by simp
    have l3: "length fs = length (filters st2)"
      using a(3) by (auto dest: make_conditions_length)
    have l4: "length fs' = length fs" using pushdown_length [OF a(4)] .
    show ?thesis using l1 l2 l3 l4 a(5) by simp
  qed
qed (erule GenerateJoins_leaf_elim; auto dest: pushdown_length)+

lemma Flip_involution: "FlipComparisionExpression (FlipComparisionExpression c) = c"
  by (cases c) simp_all

lemma key_flip: "key (Comparison (FlipComparisionExpression c) r l) = key (Comparison c l r)"
  by (auto simp: key_def flip_expr_def Flip_involution)

lemma held_sel:
  "held op = image_mset key (mset (expressions op)) + cond_keys (conditions op) +
             sum_list (map held (children op))"
  by (cases op) simp

lemma sum_list_update:
  fixes f :: "'a \<Rightarrow> 'b::cancel_comm_monoid_add"
  shows "i < length xs \<Longrightarrow>
    sum_list (map f (xs[i := y])) + f (xs ! i) = sum_list (map f xs) + f y"
proof (induction xs arbitrary: i)
  case Nil
  then show ?case by simp
next
  case (Cons x xs)
  then show ?case by (cases i) (simp_all add: ac_simps)
qed

lemma keys_of_take:
  "i < length fs \<Longrightarrow> fs ! i = Some e \<Longrightarrow> keys_of (fs[i := None]) + {#key e#} = keys_of fs"
  using sum_list_update [of i fs "\<lambda>f. case f of None \<Rightarrow> {#} | Some e \<Rightarrow> {#key e#}" None]
  by (simp add: keys_of_def)

lemma held_rels_take:
  "i < length rs \<Longrightarrow> rs ! i = Some op \<Longrightarrow> held_rels (rs[i := None]) + held op = held_rels rs"
  using sum_list_update [of i rs "\<lambda>r. case r of None \<Rightarrow> {#} | Some op \<Rightarrow> held op" None]
  by (simp add: held_rels_def)

lemma held_PushFilter: "held (PushFilter op e) = held op + {#key e#}"
  by (cases op) (simp add: PushFilter_def LogicalFilter_def set_expressions_def cond_keys_def)

lemma held_add_expression:
  "held (set_expressions op (expressions op @ [e])) = held op + {#key e#}"
  by (cases op) (simp add: set_expressions_def)

lemma held_push_residual:
  "push_residual op e = Some op' \<Longrightarrow> held op' = held op + {#key e#}"
proof -
  assume a: "push_residual op e = Some op'"
  show ?thesis
  proof (cases "is_comparison e \<and> op_type op \<noteq> JOIN \<and> op_type op = FILTER")
    case False
    then show ?thesis using a
      by (auto simp: push_residual_def held_PushFilter held_add_expression split: if_splits)
  next
    case True
    then obtain c cs where cs: "children op = c # cs"
      using a by (cases "children op") (auto simp: push_residual_def)
    show ?thesis
    proof (cases "op_type c = JOIN")
      case True
      with \<open>is_comparison e \<and> op_type op \<noteq> JOIN \<and> op_type op = FILTER\<close> a cs
      have "op' = set_children op (set_expressions c (expressions c @ [e]) # cs)"
        by (simp add: push_residual_def)
      then show ?thesis using cs held_add_expression [of c e]
        by (cases op) (simp add: set_children_def)
    next
      case False
      with \<open>is_comparison e \<and> op_type op \<noteq> JOIN \<and> op_type op = FILTER\<close> a cs
      have "op' = set_expressions op (expressions op @ [e])"
        by (simp add: push_residual_def)
      then show ?thesis by (simp add: held_add_expression)
    qed
  qed
qed

lemma pushdown_held:
  "pushdown rel fis op fs = Some (op', fs') \<Longrightarrow> held op' + keys_of fs' = held op + keys_of fs"
proof (induction rel fis op fs arbitrary: op' fs' rule: pushdown.induct)
  case (1 result_relation op fs)
  then show ?case by simp
next
  case (2 result_relation info_f rest op fs)
  let ?i = "filter_index info_f"
  from "2.prems" have len: "?i < length fs" by (simp split: if_splits)
  show ?case
  proof (cases "fs ! ?i")
    case None
    then show ?thesis using "2.prems" "2.IH"(1) len by simp
  next
    case (Some e)
    show ?thesis
    proof (cases "length (set_f info_f) > 0 \<and> IsSubset result_relation (set_f info_f)")
      case False
      then show ?thesis using "2.prems" "2.IH"(3) [OF _ Some] len Some by auto
    next
      case True
      then obtain op1 where p: "push_residual op e = Some op1"
        using "2.prems" len Some by (cases "push_residual op e") auto
      then have run: "pushdown result_relation rest op1 (fs[?i := None]) = Some (op', fs')"
        using "2.prems" len Some True by simp
      have "held op' + keys_of fs' = held op1 + keys_of (fs[?i := None])"
        using "2.IH"(2) [OF _ Some True p run] len by simp
      also have "\<dots> = held op + (keys_of (fs[?i := None]) + {#key e#})"
        using held_push_residual [OF p] by (simp add: ac_simps)
      also have "\<dots> = held op + keys_of fs" using keys_of_take [OF len Some] by simp
      finally show ?thesis .
    qed
  qed
qed

lemma make_conditions_held:
  "make_conditions lf rf fis fs conds = Some (conds', fs') \<Longrightarrow>
   cond_keys conds' + keys_of fs' = cond_keys conds + keys_of fs"
proof (induction lf rf fis fs conds rule: make_conditions.induct)
  case (1 lfirst rfirst fs conds)
  then show ?case by simp
next
  case (2 lfirst rfirst f rest fs conds)
  let ?i = "filter_index f"
  from "2.prems" have len: "?i < length fs" by (simp split: if_splits)
  from "2.prems" len obtain e where e: "fs ! ?i = Some e" by (cases "fs ! ?i") auto
  from "2.prems" len e have ok:
    "(IsSubset lfirst (left_set f) \<and> IsSubset rfirst (right_set f)) \<or>
     (IsSubset lfirst (right_set f) \<and> IsSubset rfirst (left_set f))"
    by (auto split: if_splits)
  from "2.prems" len e ok obtain c l r where c: "e = Comparison c l r"
    by (cases e) (auto split: if_splits)
  define cond where "cond = (if \<not> (if IsSubset lfirst (left_set f) then False else True)
      then \<lparr>left_c = l, right_c = r, comparison = c\<rparr>
      else \<lparr>left_c = r, right_c = l, comparison = FlipComparisionExpression c\<rparr>)"
  have run: "make_conditions lfirst rfirst rest (fs[?i := None]) (conds @ [cond]) = Some (conds', fs')"
    using "2.prems" len e ok c by (auto simp: cond_def Let_def split: if_splits)
  have k: "key (cond_expr cond) = key e"
    by (simp add: cond_def cond_expr_def c key_flip)
  have nl: "\<not> length fs \<le> ?i" using len by simp
  have nn: "\<not> \<not> ((IsSubset lfirst (left_set f) \<and> IsSubset rfirst (right_set f)) \<or>
     (IsSubset lfirst (right_set f) \<and> IsSubset rfirst (left_set f)))" using ok by simp
  have "cond_keys conds' + keys_of fs' = cond_keys (conds @ [cond]) + keys_of (fs[?i := None])"
    using run unfolding cond_def by (rule "2.IH" [OF nl e nn c refl refl])
  also have "\<dots> = cond_keys conds + (keys_of (fs[?i := None]) + {#key e#})"
    using k by (simp add: cond_keys_def ac_simps)
  also have "\<dots> = cond_keys conds + keys_of fs" using keys_of_take [OF len e] by simp
  finally show ?case .
qed

lemma held_join: "held (LogicalJoin INNER [lo, ro] conds) = cond_keys conds + held lo + held ro"
  by (simp add: LogicalJoin_def ac_simps)

lemma held_cross: "held (LogicalCrossProduct [lo, ro]) = held lo + held ro"
  by (simp add: LogicalCrossProduct_def cond_keys_def)

lemma GenerateJoins_leaf_held:
  assumes "GenerateJoins fis (JoinNode s i l r c k) st = Some ((rel, op), st')"
    and "l = None \<or> r = None"
  shows "held op + held_rels (extracted_relations st') + keys_of (filters st') =
         held_rels (extracted_relations st) + keys_of (filters st)"
  using assms
proof (rule GenerateJoins_leaf_elim)
  fix op0 op' fs'
  assume a: "s ! 0 < length (extracted_relations st)"
    "extracted_relations st ! (s ! 0) = Some op0"
    "pushdown s fis op0 (filters st) = Some (op', fs')"
    "(rel, op) = (s, op')"
    "st' = st\<lparr>filters := fs', extracted_relations := (extracted_relations st)[s ! 0 := None]\<rparr>"
  have "held op' + keys_of fs' + held_rels ((extracted_relations st)[s ! 0 := None]) =
        held op0 + keys_of (filters st) + held_rels ((extracted_relations st)[s ! 0 := None])"
    using pushdown_held [OF a(3)] by simp
  also have "\<dots> = held_rels (extracted_relations st) + keys_of (filters st)"
    using held_rels_take [OF a(1,2)] by (simp add: ac_simps)
  finally show ?thesis using a(4,5) by (simp add: ac_simps)
qed

lemma GenerateJoins_held:
  "GenerateJoins fis node st = Some ((rel, op), st') \<Longrightarrow>
   held op + held_rels (extracted_relations st') + keys_of (filters st') =
   held_rels (extracted_relations st) + keys_of (filters st)"
proof (induction fis node st arbitrary: rel op st' rule: GenerateJoins.induct)
  case (1 fis s i l r c k st)
  from "1.prems" show ?case
  proof (rule GenerateJoins_node_elim)
    fix lf lo st1 rf ro st2 ninfo op0 fs op' fs'
    assume a: "GenerateJoins fis l st = Some ((lf, lo), st1)"
      "GenerateJoins fis r st1 = Some ((rf, ro), st2)"
      "(filters_n ninfo = [] \<and> op0 = LogicalCrossProduct [lo, ro] \<and> fs = filters st2) \<or>
       (filters_n ninfo \<noteq> [] \<and>
        (\<exists>conds. make_conditions lf rf (filters_n ninfo) (filters st2) [] = Some (conds, fs) \<and>
           op0 = LogicalJoin INNER [lo, ro] conds))"
      "pushdown (Union_rs lf rf) fis op0 fs = Some (op', fs')"
      "(rel, op) = (Union_rs lf rf, op')"
      "st' = st2\<lparr>filters := fs'\<rparr>"
    have h1: "held lo + held_rels (extracted_relations st1) + keys_of (filters st1) =
        held_rels (extracted_relations st) + keys_of (filters st)"
      using "1.IH"(1) [OF a(1)] .
    have h2: "held ro + held_rels (extracted_relations st2) + keys_of (filters st2) =
        held_rels (extracted_relations st1) + keys_of (filters st1)"
      using "1.IH"(2) [OF a(1) _ _ a(2)] by simp
    have h3: "held op0 + keys_of fs = held lo + held ro + keys_of (filters st2)"
      using a(3)
    proof
      assume "filters_n ninfo = [] \<and> op0 = LogicalCrossProduct [lo, ro] \<and> fs = filters st2"
      then show ?thesis by (simp add: held_cross)
    next
      assume "filters_n ninfo \<noteq> [] \<and>
        (\<exists>conds. make_conditions lf rf (filters_n ninfo) (filters st2) [] = Some (conds, fs) \<and>
           op0 = LogicalJoin INNER [lo, ro] conds)"
      then obtain conds where
        c: "make_conditions lf rf (filters_n ninfo) (filters st2) [] = Some (conds, fs)"
          "op0 = LogicalJoin INNER [lo, ro] conds" by blast
      from make_conditions_held [OF c(1)] have "cond_keys conds + keys_of fs = keys_of (filters st2)"
        by (simp add: cond_keys_def)
      then show ?thesis using c(2) by (simp add: held_join ac_simps)
    qed
    have h4: "held op' + keys_of fs' = held op0 + keys_of fs" using pushdown_held [OF a(4)] .
    have "held op' + held_rels (extracted_relations st2) + keys_of fs' =
        held lo + (held ro + held_rels (extracted_relations st2) + keys_of (filters st2))"
      using h3 h4 by (simp add: ac_simps)
    also have "\<dots> = held lo + held_rels (extracted_relations st1) + keys_of (filters st1)"
      using h2 by (simp add: ac_simps)
    finally show ?thesis using h1 a(5,6) by simp
  qed
qed (rule GenerateJoins_leaf_held, assumption, simp)+

lemma keys_of_none: "list_all (\<lambda>f. f = None) fs \<Longrightarrow> keys_of fs = {#}"
  by (induction fs) (simp_all add: keys_of_def)

lemma present_drop:
  "i < length fs \<Longrightarrow> present (drop i fs) =
     (case fs ! i of None \<Rightarrow> [] | Some e \<Rightarrow> [e]) @ present (drop (Suc i) fs)"
  by (simp add: present_def flip: Cons_nth_drop_Suc)

lemma final_pushdown_fst:
  "fst (final_pushdown i fs jt) = foldl PushFilter jt (present (drop i fs))"
proof (induction i fs jt rule: final_pushdown.induct)
  case (1 i fs join_tree)
  show ?case
  proof (cases "i < length fs")
    case False
    then show ?thesis by (subst final_pushdown.simps) (simp add: present_def)
  next
    case True
    show ?thesis
    proof (cases "fs ! i")
      case None
      from "1.IH"(1) [OF True None] show ?thesis
        using True None by (subst final_pushdown.simps) (simp add: present_drop)
    next
      case (Some e)
      from "1.IH"(2) [OF True Some] show ?thesis
        using True Some by (subst final_pushdown.simps) (simp add: present_drop)
    qed
  qed
qed

lemma held_wrapped: "held (foldl PushFilter jt es) = held jt + image_mset key (mset es)"
  by (induction es arbitrary: jt) (simp_all add: held_PushFilter ac_simps)

lemma keys_of_present: "keys_of fs = image_mset key (mset (present fs))"
proof (induction fs)
  case Nil
  show ?case by (simp add: keys_of_def present_def)
next
  case (Cons f fs)
  then show ?case by (cases f) (simp_all add: keys_of_def present_def)
qed

text \<open>
  C9: when \<open>RewritePlan\<close> returns, \<open>filters\<close> has its length of before and every entry
  \<open>filters[i]\<close> is empty (moved from), and no filter is lost on the way.  \<open>GenerateJoins\<close>
  moves a filter into a join condition (as written, or with its sides exchanged and the
  comparator flipped) or into the raw expressions of an operator of the join tree: the
  predicates of the join tree, of the relations not yet taken and of the filters not yet
  moved are together those of the extracted relations and of the filters, each as often.
  The filters still present after \<open>GenerateJoins\<close> are pushed, in their order, on top of the
  join tree; this region holds all the filters.  The region is the result when the root of
  the plan has more than one child, and is otherwise stitched into the plan, on which
  \<open>ResolveJoinConditions\<close> then runs.
\<close>

theorem RewritePlan_filters_consumed:
  assumes "RewritePlan fis rels fs plan node = Some (plan', fs')"
  shows "length fs' = length fs \<and> list_all (\<lambda>f. f = None) fs' \<and>
    (\<exists>extracted rel join_tree st.
       extract_all plan rels = Some extracted \<and>
       GenerateJoins fis node \<lparr>filters = fs, extracted_relations = extracted\<rparr>
         = Some ((rel, join_tree), st) \<and>
       held join_tree + held_rels (extracted_relations st) + keys_of (filters st)
         = held_rels extracted + keys_of fs \<and>
       (let region = foldl PushFilter join_tree (present (filters st)) in
          held region + held_rels (extracted_relations st) = held_rels extracted + keys_of fs \<and>
          (if 1 < length (children plan) then plan' = region
           else \<exists>p. restitch plan region = Some p \<and> ResolveJoinConditions p = Some plan')))"
proof -
  from assms obtain extracted rel join_tree st where
    e: "extract_all plan rels = Some extracted"
    and g: "GenerateJoins fis node \<lparr>filters = fs, extracted_relations = extracted\<rparr>
          = Some ((rel, join_tree), st)"
    by (auto simp: RewritePlan_def Let_def split: option.splits prod.splits if_splits)
  define region where "region = fst (final_pushdown 0 (filters st) join_tree)"
  define fs1 where "fs1 = snd (final_pushdown 0 (filters st) join_tree)"
  have fp: "final_pushdown 0 (filters st) join_tree = (region, fs1)"
    by (simp add: region_def fs1_def)
  have r: "region = foldl PushFilter join_tree (present (filters st))"
    unfolding region_def by (simp add: final_pushdown_fst)
  have out: "fs' = fs1 \<and>
     (if 1 < length (children plan) then plan' = region
      else \<exists>p. restitch plan region = Some p \<and> ResolveJoinConditions p = Some plan')"
    using assms e g fp
    by (auto simp: RewritePlan_def Let_def split: option.splits if_splits)
  have len: "length (filters st) = length fs" using GenerateJoins_length [OF g] by simp
  have moved: "length fs1 = length (filters st) \<and> list_all (\<lambda>f. f = None) fs1"
    unfolding fs1_def by (rule final_pushdown_all_moved) simp
  have c1: "held join_tree + held_rels (extracted_relations st) + keys_of (filters st)
      = held_rels extracted + keys_of fs"
    using GenerateJoins_held [OF g] by simp
  have "held region = held join_tree + keys_of (filters st)"
    by (simp add: r held_wrapped keys_of_present)
  then have c2: "held region + held_rels (extracted_relations st) = held_rels extracted + keys_of fs"
    using c1 by (simp add: ac_simps)
  have l: "length fs' = length fs" "list_all (\<lambda>f. f = None) fs'"
    using len moved out by simp_all
  have o: "if 1 < length (children plan) then plan' = region
      else \<exists>p. restitch plan region = Some p \<and> ResolveJoinConditions p = Some plan'"
    using out by simp
  show ?thesis
    unfolding Let_def
    by (intro conjI l exI [of _ extracted] exI [of _ rel] exI [of _ join_tree] exI [of _ st]
          e g c1 c2 [unfolded r] o [unfolded r])
qed

lemma rewrite_region_plan:
  "RewritePlan [fi_01, fi_const] [[0, 0], [0, 1]]
     [Some (Comparison COMPARE_EQUAL (col 0) (col 1)), Some (OtherExpr [])] region_plan node_01
   = Some (LogicalOperator PROJECTION
            [LogicalFilter
               [LogicalJoin INNER [scan 0, scan 1]
                  [\<lparr>left_c = col 0, right_c = col 1, comparison = COMPARE_EQUAL\<rparr>]]
               [OtherExpr []]] [] 0 INNER [],
           [None, None])"
  by (simp add: RewritePlan_def region_plan_def node_01_def fi_01_def fi_const_def
        ExtractRelation_def LogicalCrossProduct_def JoinLeaf_def scan_def
        IsSubset_def Union_rs_def final_pushdown.simps PushFilter_def LogicalFilter_def
        LogicalJoin_def restitch_def is_join_region_def resolve_join_def Let_def)

theorem RewritePlan_filters_consumed_witness:
  "\<exists>plan' fs'.
     RewritePlan [fi_01, fi_const] [[0, 0], [0, 1]]
       [Some (Comparison COMPARE_EQUAL (col 0) (col 1)), Some (OtherExpr [])] region_plan node_01
       = Some (plan', fs') \<and>
     (length fs' = length [Some (Comparison COMPARE_EQUAL (col 0) (col 1)), Some (OtherExpr [])] \<and>
      list_all (\<lambda>f. f = None) fs' \<and>
      (\<exists>extracted rel join_tree st.
         extract_all region_plan [[0, 0], [0, 1]] = Some extracted \<and>
         GenerateJoins [fi_01, fi_const] node_01
           \<lparr>filters = [Some (Comparison COMPARE_EQUAL (col 0) (col 1)), Some (OtherExpr [])],
              extracted_relations = extracted\<rparr>
           = Some ((rel, join_tree), st) \<and>
         held join_tree + held_rels (extracted_relations st) + keys_of (filters st)
           = held_rels extracted +
             keys_of [Some (Comparison COMPARE_EQUAL (col 0) (col 1)), Some (OtherExpr [])] \<and>
         (let region = foldl PushFilter join_tree (present (filters st)) in
            held region + held_rels (extracted_relations st)
              = held_rels extracted +
                keys_of [Some (Comparison COMPARE_EQUAL (col 0) (col 1)), Some (OtherExpr [])] \<and>
            (if 1 < length (children region_plan) then plan' = region
             else \<exists>p. restitch region_plan region = Some p \<and>
                      ResolveJoinConditions p = Some plan'))))"
  by (rule exI, rule exI,
      rule conjI [OF rewrite_region_plan RewritePlan_filters_consumed [OF rewrite_region_plan]])

section \<open>Runs of Optimize\<close>

lemma optimize_scan: "Optimize est (scan t) = Some (scan t)"
  by (simp add: Optimize.simps ExtractJoinRelations.simps scan_def add_relation_def resolve_join_def)

lemma extract_join_root:
  "ExtractJoinRelations est_table [] [] join_root_plan
      \<lparr>relations = [], relation_mapping = Map.empty, filter_operators = []\<rparr>
   = Some (True, join_root_plan,
       \<lparr>relations = [[0], [Suc 0]], relation_mapping = [Suc 0 \<mapsto> 0, 0 \<mapsto> 0, 2 \<mapsto> Suc 0],
        filter_operators = [[]]\<rparr>)"
proof -
  have l: "ExtractJoinRelations est_table [0] [0] left_join
      \<lparr>relations = [], relation_mapping = Map.empty, filter_operators = [[]]\<rparr>
    = Some (True, left_join,
       \<lparr>relations = [[0]], relation_mapping = [Suc 0 \<mapsto> 0, 0 \<mapsto> 0], filter_operators = [[]]\<rparr>)"
    by (subst ExtractJoinRelations.simps)
       (simp add: left_join_def optimize_scan set_children_def add_relation_def, simp add: scan_def)
  have r: "ExtractJoinRelations est_table [Suc 0] [Suc 0] (scan 2)
      \<lparr>relations = [[0]], relation_mapping = [Suc 0 \<mapsto> 0, 0 \<mapsto> 0], filter_operators = [[]]\<rparr>
    = Some (True, scan 2,
       \<lparr>relations = [[0], [Suc 0]], relation_mapping = [Suc 0 \<mapsto> 0, 0 \<mapsto> 0, 2 \<mapsto> Suc 0],
        filter_operators = [[]]\<rparr>)"
    by (subst ExtractJoinRelations.simps) (simp add: scan_def add_relation_def)
  show ?thesis
    by (subst ExtractJoinRelations.simps)
       (simp add: join_root_plan_def add_filter_operator_def l r set_children_def)
qed

lemma optimize_region_eval:
  assumes "extract_filters plan (filter_operators ex) [] = Some (plan1, fexprs)"
    and "edge_pass (relation_mapping ex) 0 fexprs [] [] = Some (fis, g)"
    and "init_plans est plan1 (relations ex) 0 Map.empty = Some pl"
    and "SolveJoinOrder (length (relations ex)) g \<lparr>plans = pl, pairs = 0\<rparr> = Some (g1, m1)"
    and "plans m1 (GetRelationSet [0..<length (relations ex)]) = Some node"
    and "RewritePlan fis (relations ex) (map Some fexprs) plan1 node = Some (result, fs')"
  shows "optimize_region est plan ex = Some result"
  using assms by (simp add: optimize_region_def Let_def)

lemma Optimize_eval:
  assumes "ExtractJoinRelations est [] [] plan
             \<lparr>relations = [], relation_mapping = Map.empty, filter_operators = []\<rparr>
           = Some (True, plan', ex)"
    and "1 < length (relations ex)"
    and "optimize_region est plan' ex = Some result"
  shows "Optimize est plan = Some result"
  using assms by (subst Optimize.simps) simp

lemma filters_join_root:
  "extract_filters join_root_plan [[]] []
     = Some (join_root_cleared, [Comparison COMPARE_EQUAL (col 1) (col 2)])"
  by (simp add: join_root_plan_def join_root_cleared_def set_expressions_def)

lemma edges_join_root:
  "edge_pass [Suc 0 \<mapsto> 0, 0 \<mapsto> 0, 2 \<mapsto> Suc 0] 0 [Comparison COMPARE_EQUAL (col 1) (col 2)] [] []
     = Some ([fi_01], pair_graph fi_01)"
  by (simp add: filter_edges_def col_def GetRelationSet_def Disjoint_def CreateEdge_def
        fi_01_def pair_graph_def add_filter_def Let_def)

lemma plans_join_root:
  "init_plans est_table join_root_cleared [[0], [Suc 0]] 0 Map.empty = Some (leaves_two 1 1000)"
  by (simp add: join_root_cleared_def left_join_def scan_def leaves_two_def GetRelation_def)

lemma tree_join_root:
  "joined_two fi_01 1 1000 (GetRelationSet [0..<Suc (Suc 0)]) = Some node_join_root"
  by (simp add: joined_two_def GetRelationSet_def CreateJoinTree.simps JoinLeaf_def node_join_root_def)

lemma rewrite_join_root:
  "RewritePlan [fi_01] [[0], [Suc 0]] [Some (Comparison COMPARE_EQUAL (col 1) (col 2))]
     join_root_cleared node_join_root
   = Some (LogicalJoin INNER [scan 2, left_join]
             [\<lparr>left_c = col 2, right_c = col 1, comparison = COMPARE_EQUAL\<rparr>], [None])"
  by (simp add: RewritePlan_def join_root_cleared_def fi_01_def ExtractRelation_def JoinLeaf_def
        node_join_root_def IsSubset_def Union_rs_def final_pushdown.simps Let_def)

lemma Optimize_join_root_eval:
  "Optimize est_table join_root_plan
     = Some (LogicalJoin INNER [scan 2, left_join]
               [\<lparr>left_c = col 2, right_c = col 1, comparison = COMPARE_EQUAL\<rparr>])"
proof (rule Optimize_eval [OF extract_join_root])
  show "1 < length (relations \<lparr>relations = [[0], [Suc 0]],
          relation_mapping = [Suc 0 \<mapsto> 0, 0 \<mapsto> 0, 2 \<mapsto> Suc 0], filter_operators = [[]]\<rparr>)"
    by simp
  show "optimize_region est_table join_root_plan
          \<lparr>relations = [[0], [Suc 0]],
           relation_mapping = [Suc 0 \<mapsto> 0, 0 \<mapsto> 0, 2 \<mapsto> Suc 0], filter_operators = [[]]\<rparr>
        = Some (LogicalJoin INNER [scan 2, left_join]
               [\<lparr>left_c = col 2, right_c = col 1, comparison = COMPARE_EQUAL\<rparr>])"
  proof (rule optimize_region_eval)
    show "extract_filters join_root_plan (filter_operators \<lparr>relations = [[0], [Suc 0]],
           relation_mapping = [Suc 0 \<mapsto> 0, 0 \<mapsto> 0, 2 \<mapsto> Suc 0], filter_operators = [[]]\<rparr>) []
          = Some (join_root_cleared, [Comparison COMPARE_EQUAL (col 1) (col 2)])"
      using filters_join_root by simp
    show "edge_pass (relation_mapping \<lparr>relations = [[0], [Suc 0]],
           relation_mapping = [Suc 0 \<mapsto> 0, 0 \<mapsto> 0, 2 \<mapsto> Suc 0], filter_operators = [[]]\<rparr>) 0
            [Comparison COMPARE_EQUAL (col 1) (col 2)] [] [] = Some ([fi_01], pair_graph fi_01)"
      using edges_join_root by simp
    show "init_plans est_table join_root_cleared (relations \<lparr>relations = [[0], [Suc 0]],
           relation_mapping = [Suc 0 \<mapsto> 0, 0 \<mapsto> 0, 2 \<mapsto> Suc 0], filter_operators = [[]]\<rparr>) 0 Map.empty
          = Some (leaves_two 1 1000)"
      using plans_join_root by simp
    show "SolveJoinOrder (length (relations \<lparr>relations = [[0], [Suc 0]],
           relation_mapping = [Suc 0 \<mapsto> 0, 0 \<mapsto> 0, 2 \<mapsto> Suc 0], filter_operators = [[]]\<rparr>))
            (pair_graph fi_01) \<lparr>plans = leaves_two 1 1000, pairs = 0\<rparr>
          = Some (pair_graph fi_01, \<lparr>plans = joined_two fi_01 1 1000, pairs = Suc 0\<rparr>)"
      using solve_two by simp
    show "plans \<lparr>plans = joined_two fi_01 1 1000, pairs = Suc 0\<rparr>
            (GetRelationSet [0..<length (relations \<lparr>relations = [[0], [Suc 0]],
           relation_mapping = [Suc 0 \<mapsto> 0, 0 \<mapsto> 0, 2 \<mapsto> Suc 0], filter_operators = [[]]\<rparr>)])
          = Some node_join_root"
      using tree_join_root by simp
    show "RewritePlan [fi_01] (relations \<lparr>relations = [[0], [Suc 0]],
           relation_mapping = [Suc 0 \<mapsto> 0, 0 \<mapsto> 0, 2 \<mapsto> Suc 0], filter_operators = [[]]\<rparr>)
            (map Some [Comparison COMPARE_EQUAL (col 1) (col 2)]) join_root_cleared node_join_root
          = Some (LogicalJoin INNER [scan 2, left_join]
               [\<lparr>left_c = col 2, right_c = col 1, comparison = COMPARE_EQUAL\<rparr>], [None])"
      using rewrite_join_root by simp
  qed
qed

text \<open>
  C2 (the code differs): \<open>Optimize\<close> on a plan whose root is an inner join over a left outer
  join returns the rebuilt region at once, without \<open>ResolveJoinConditions\<close>; the left outer join in
  the returned plan still holds its raw predicate.
\<close>

theorem Optimize_join_root_keeps_raw_predicate:
  "Optimize est_table join_root_plan
     = Some (LogicalJoin INNER [scan 2, left_join]
               [\<lparr>left_c = col 2, right_c = col 1, comparison = COMPARE_EQUAL\<rparr>])
   \<and> op_type left_join = JOIN \<and> join_type left_join = LEFT_OUTER
   \<and> expressions left_join = [Comparison COMPARE_EQUAL (col 0) (col 1)]
   \<and> \<not> joins_resolved (LogicalJoin INNER [scan 2, left_join]
               [\<lparr>left_c = col 2, right_c = col 1, comparison = COMPARE_EQUAL\<rparr>])"
  using Optimize_join_root_eval by (simp add: left_join_def LogicalJoin_def)

lemma extract_poisoned:
  "ExtractJoinRelations est_table [] [] poisoned_plan
      \<lparr>relations = [], relation_mapping = Map.empty, filter_operators = []\<rparr>
   = Some (True, poisoned_plan, ex_poisoned)"
proof -
  let ?e0 = "\<lparr>relations = [], relation_mapping = Map.empty, filter_operators = [[0]]\<rparr>"
  let ?e1 = "\<lparr>relations = [[0, 0, 0]], relation_mapping = [0 \<mapsto> 0], filter_operators = [[0]]\<rparr>"
  have l: "ExtractJoinRelations est_table [0, 0, 0] [0, 0, 0] (scan 0) ?e0 = Some (True, scan 0, ?e1)"
    by (subst ExtractJoinRelations.simps) (simp add: scan_def add_relation_def)
  have r: "ExtractJoinRelations est_table [0, 0, Suc 0] [0, 0, Suc 0] (scan 2) ?e1
             = Some (True, scan 2, ex_poisoned)"
    by (subst ExtractJoinRelations.simps) (simp add: scan_def add_relation_def ex_poisoned_def)
  have c: "ExtractJoinRelations est_table [] [0, 0] (LogicalCrossProduct [scan 0, scan 2]) ?e0
             = Some (True, LogicalCrossProduct [scan 0, scan 2], ex_poisoned)"
    by (subst ExtractJoinRelations.simps)
       (simp add: LogicalCrossProduct_def l r set_children_def)
  have f: "ExtractJoinRelations est_table [] [0]
             (LogicalOperator FILTER [LogicalCrossProduct [scan 0, scan 2]] [poisoned_pred] 0 INNER [])
             \<lparr>relations = [], relation_mapping = Map.empty, filter_operators = []\<rparr>
           = Some (True,
               LogicalOperator FILTER [LogicalCrossProduct [scan 0, scan 2]] [poisoned_pred] 0 INNER [],
               ex_poisoned)"
    by (subst ExtractJoinRelations.simps) (simp add: c add_filter_operator_def set_children_def)
  show ?thesis
    by (subst ExtractJoinRelations.simps) (simp add: poisoned_plan_def f set_children_def)
qed

lemma filters_poisoned:
  "extract_filters poisoned_plan (filter_operators ex_poisoned) [] = Some (poisoned_cleared, [poisoned_pred])"
  by (simp add: poisoned_plan_def poisoned_cleared_def ex_poisoned_def set_expressions_def set_children_def)

lemma edges_poisoned:
  "edge_pass [0 \<mapsto> 0, 2 \<mapsto> Suc 0] 0 [poisoned_pred] [] [] = Some ([fi_01], pair_graph fi_01)"
  by (simp add: filter_edges_def poisoned_pred_def col_def GetRelationSet_def Disjoint_def
        CreateEdge_def fi_01_def pair_graph_def add_filter_def Let_def)

lemma plans_poisoned:
  "init_plans est_table poisoned_cleared (relations ex_poisoned) 0 Map.empty = Some (leaves_two 100 1000)"
  by (simp add: poisoned_cleared_def ex_poisoned_def LogicalCrossProduct_def scan_def leaves_two_def
        GetRelation_def)

lemma tree_poisoned:
  "joined_two fi_01 100 1000 (GetRelationSet [0..<Suc (Suc 0)]) = Some node_poisoned"
  by (simp add: joined_two_def GetRelationSet_def CreateJoinTree.simps JoinLeaf_def node_poisoned_def)

lemma rewrite_poisoned:
  "RewritePlan [fi_01] (relations ex_poisoned) (map Some [poisoned_pred]) poisoned_cleared node_poisoned
   = Some (poisoned_result, [None])"
  by (simp add: RewritePlan_def poisoned_cleared_def ex_poisoned_def fi_01_def ExtractRelation_def
        JoinLeaf_def node_poisoned_def poisoned_pred_def poisoned_result_def LogicalCrossProduct_def
        IsSubset_def Union_rs_def final_pushdown.simps restitch_def is_join_region_def
        LogicalJoin_def resolve_join_def scan_def Let_def)

lemma Optimize_poisoned_eval: "Optimize est_table poisoned_plan = Some poisoned_result"
proof (rule Optimize_eval [OF extract_poisoned])
  show "1 < length (relations ex_poisoned)" by (simp add: ex_poisoned_def)
  show "optimize_region est_table poisoned_plan ex_poisoned = Some poisoned_result"
  proof (rule optimize_region_eval [OF filters_poisoned _ plans_poisoned _ _ rewrite_poisoned])
    show "edge_pass (relation_mapping ex_poisoned) 0 [poisoned_pred] [] []
            = Some ([fi_01], pair_graph fi_01)"
      using edges_poisoned by (simp add: ex_poisoned_def)
    show "SolveJoinOrder (length (relations ex_poisoned)) (pair_graph fi_01)
            \<lparr>plans = leaves_two 100 1000, pairs = 0\<rparr>
          = Some (pair_graph fi_01, \<lparr>plans = joined_two fi_01 100 1000, pairs = Suc 0\<rparr>)"
      using solve_two by (simp add: ex_poisoned_def)
    show "plans \<lparr>plans = joined_two fi_01 100 1000, pairs = Suc 0\<rparr>
            (GetRelationSet [0..<length (relations ex_poisoned)]) = Some node_poisoned"
      using tree_poisoned by (simp add: ex_poisoned_def)
  qed
qed

text \<open>
  C3 (the code differs): the comparison \<open>(c.x + outer.y) + a.z = c.w\<close> holds a column reference
  at depth 1, and the edge-building pass of \<open>Optimize\<close> still creates the two edges between
  relation 0 and relation 1 for it.
\<close>

theorem edge_pass_poisoned_filter:
  "is_poisoned poisoned_pred
   \<and> edge_pass [0 \<mapsto> 0, 2 \<mapsto> Suc 0] 0 [poisoned_pred] [] [] = Some ([fi_01], pair_graph fi_01)
   \<and> GetConnection (pair_graph fi_01) [0] [Suc 0]
       = Some \<lparr>neighbor = [Suc 0], filters_n = [fi_01]\<rparr>"
  using edges_poisoned pair_graph_connection [of fi_01]
  by (simp add: poisoned_pred_def col_def)

text \<open>
  C7 (the code differs): in the plan that \<open>Optimize\<close> returns for that comparison, the inner join
  has the scan of table 2 as left child and the scan of table 0 as right child, and the right
  operand of its condition mentions table 2.
\<close>

theorem Optimize_poisoned_orientation:
  "Optimize est_table poisoned_plan
     = Some (LogicalOperator PROJECTION
               [LogicalOperator FILTER
                  [LogicalJoin INNER [scan 2, scan 0]
                     [\<lparr>left_c = col 2,
                       right_c = OtherExpr [OtherExpr [col 2, BoundColumnRef 9 1], col 0],
                       comparison = COMPARE_EQUAL\<rparr>]]
                  [] 0 INNER []]
               [] 0 INNER [])
   \<and> 2 \<in> referenced_tables (OtherExpr [OtherExpr [col 2, BoundColumnRef 9 1], col 0])
   \<and> GetTableReferences (scan 0) [] = [0]"
  using Optimize_poisoned_eval by (simp add: poisoned_result_def col_def scan_def)

section \<open>The forced cross product of the greedy pass\<close>

lemma no_connection: "GetConnection [] a b = None"
  by (simp add: GetConnection_def edges_from_def)

lemma goo_pairs_unconnected: "goo_pairs [] T ps m b = Some (m, b)"
  by (induction ps arbitrary: m b) (auto simp: no_connection)

lemma smallest_three:
  "smallest_scan memo_three [[0], [1], [2]] 0 (None, None)
     = Some (Some (JoinLeaf [2] 1, 2), Some (JoinLeaf [1] 10, 1))"
  by (simp add: memo_three_def slot_update_def slot_takes_def JoinLeaf_def)

text \<open>
  C4 (the code differs): with cardinalities 5, 10 and 1 and no connected pair, the two slots
  end with the plans of cardinality 1 and 10, and the round joins the fragments 1 and 2; the
  fragment of cardinality 5 stays.
\<close>

theorem greedy_cross_product_choice:
  "smallest_scan memo_three [[0], [1], [2]] 0 (None, None)
     = Some (Some (JoinLeaf [2] 1, 2), Some (JoinLeaf [1] 10, 1))
   \<and> map_option (\<lambda>(g, m, T). T) (goo_step [] memo_three [[0], [1], [2]]) = Some [[0], [1, 2]]"
proof
  show "smallest_scan memo_three [[0], [1], [2]] 0 (None, None)
     = Some (Some (JoinLeaf [2] 1, 2), Some (JoinLeaf [1] 10, 1))"
    by (rule smallest_three)
  have "goo_cross [] memo_three [[0], [1], [2]]
      = Some ([([2], [\<lparr>neighbor = [1], filters_n = []\<rparr>])],
              memo_three\<lparr>plans := (plans memo_three)([1, 2] \<mapsto>
                 CreateJoinTree [1, 2] \<lparr>neighbor = [1], filters_n = []\<rparr> (JoinLeaf [2] 1) (JoinLeaf [1] 10))\<rparr>,
              [[0], [1, 2]])"
    unfolding goo_cross_def smallest_three
    by (simp add: JoinLeaf_def CreateEdge_def add_filter_def GetConnection_def edges_from_def
          IsSubset_def EmitPair_def memo_three_def Union_rs_def goo_finish_def erase_at_def
          CreateJoinTree.simps Let_def)
  then show "map_option (\<lambda>(g, m, T). T) (goo_step [] memo_three [[0], [1], [2]]) = Some [[0], [1, 2]]"
    by (simp add: goo_step_def goo_pairs_unconnected)
qed

text \<open>
  C8 (the code differs): when the last two fragments are not connected and the first has the
  larger cardinality, the second slot stays empty and the greedy pass stops on its assertion:
  no plan for the union is stored.
\<close>

theorem greedy_last_round_aborts:
  assumes "GetConnection g a b = None" "plans m a = Some pa" "plans m b = Some pb"
    and "cardinality pb < cardinality pa"
  shows "goo_loop g m [a, b] = None"
proof -
  have "goo_pairs g [a, b] (index_pairs (length [a, b])) m None = Some (m, None)"
    using assms(1) by (simp add: index_pairs_def)
  moreover have "smallest_scan m [a, b] 0 (None, None) = Some (Some (pb, 1), None)"
    using assms(2,3,4) by (simp add: slot_update_def slot_takes_def)
  ultimately have "goo_step g m [a, b] = None"
    by (simp add: goo_step_def goo_cross_def)
  then show ?thesis by (subst goo_loop.simps) simp
qed

theorem greedy_last_round_aborts_witness:
  "GetConnection [] [0] [1] = None \<and> plans memo_desc [0] = Some (JoinLeaf [0] 10)
   \<and> plans memo_desc [1] = Some (JoinLeaf [1] 5)
   \<and> cardinality (JoinLeaf [1] 5) < cardinality (JoinLeaf [0] 10)
   \<and> SolveJoinOrderApproximately 2 [] memo_desc = None"
proof -
  have c: "GetConnection [] [0] [1] = None" by (rule no_connection)
  have p0: "plans memo_desc [0] = Some (JoinLeaf [0] 10)" by (simp add: memo_desc_def)
  have p1: "plans memo_desc [1] = Some (JoinLeaf [1] 5)" by (simp add: memo_desc_def)
  have lt: "cardinality (JoinLeaf [1] 5) < cardinality (JoinLeaf [0] 10)" by (simp add: JoinLeaf_def)
  have "goo_loop [] memo_desc [[0], [1]] = None"
    by (rule greedy_last_round_aborts [OF c p0 p1 lt])
  then have "SolveJoinOrderApproximately 2 [] memo_desc = None"
    by (simp add: SolveJoinOrderApproximately_def GetRelation_def numeral_2_eq_2)
  with c p0 p1 lt show ?thesis by simp
qed

section \<open>The exact search finds the cheapest tree without cross products\<close>

subsection \<open>Edges and neighbors of a simple graph\<close>















subsection \<open>Keys, connected sets and cardinalities\<close>


lemma set_Union_rs [simp]: "set (Union_rs a b) = set a \<union> set b"
  by (simp add: Union_rs_def)

lemma Union_rs_sorted [simp]: "sorted (Union_rs a b)" "distinct (Union_rs a b)"
  by (simp_all add: Union_rs_def)









lemma mc_single [simp]: "mc cardf [a] = cardf a"
  by (simp add: mc_def)





subsection \<open>One emitted pair\<close>












subsection \<open>The complements of a subgraph\<close>






















subsection \<open>EmitCSG\<close>






subsection \<open>The connected subgraphs of a start node\<close>







lemma Closed_cong: "P' = P \<Longrightarrow> Closed g cardf P S \<Longrightarrow> Closed g cardf P' S"
  by simp
























subsection \<open>The loop over the start nodes\<close>









text \<open>The memo that \<open>Optimize\<close> builds before the search is \<open>leaf_plans\<close>.\<close>

lemma init_plans_from:
  "init_plans est plan ps i pl0 = Some pl \<Longrightarrow> pl0 = leaf_plans c i \<Longrightarrow>
   (\<forall>j<length ps. c (i + j) = est (the (subtree_at plan (ps ! j)))) \<Longrightarrow>
   pl = leaf_plans c (i + length ps)"
proof (induction ps arbitrary: i pl0)
  case Nil
  then show ?case by simp
next
  case (Cons p ps)
  from Cons.prems(1) obtain op where op: "subtree_at plan p = Some op"
    and run: "init_plans est plan ps (Suc i) (pl0(GetRelation i \<mapsto> JoinLeaf (GetRelation i) (est op))) = Some pl"
    by (auto split: option.splits)
  have "c (i + 0) = est (the (subtree_at plan ((p # ps) ! 0)))"
    by (rule Cons.prems(3) [rule_format]) simp
  then have "c i = est op" using op by simp
  then have a: "pl0(GetRelation i \<mapsto> JoinLeaf (GetRelation i) (est op)) = leaf_plans c (Suc i)"
    using Cons.prems(2) by simp
  have b: "\<forall>j<length ps. c (Suc i + j) = est (the (subtree_at plan (ps ! j)))"
  proof (intro allI impI)
    fix j assume "j < length ps"
    then have "c (i + Suc j) = est (the (subtree_at plan ((p # ps) ! Suc j)))"
      by (intro Cons.prems(3) [rule_format]) simp
    then show "c (Suc i + j) = est (the (subtree_at plan (ps ! j)))" by simp
  qed
  have "pl = leaf_plans c (Suc i + length ps)" using run a b by (rule Cons.IH)
  moreover have "Suc i + length ps = i + length (p # ps)" by simp
  ultimately show ?case by (simp only:)
qed

lemma init_plans_leaf_plans:
  "init_plans est plan ps 0 Map.empty = Some pl \<Longrightarrow>
   pl = leaf_plans (\<lambda>i. est (the (subtree_at plan (ps ! i)))) (length ps)"
proof -
  assume a: "init_plans est plan ps 0 Map.empty = Some pl"
  let ?c = "\<lambda>i. est (the (subtree_at plan (ps ! i)))"
  have b: "Map.empty = leaf_plans ?c 0" by simp
  have c: "\<forall>j<length ps. ?c (0 + j) = est (the (subtree_at plan (ps ! j)))" by simp
  have "pl = leaf_plans ?c (0 + length ps)" using a b c by (rule init_plans_from)
  then show ?thesis by (simp only: add_0)
qed

subsection \<open>Every tree without cross products is matched\<close>






section \<open>A tree with a cross product that is cheaper\<close>




































section \<open>The exact search on two joined relations is optimal\<close>







end
